theory Spec2Isabelle
  imports Main "HOL-Library.Word"
begin

unbundle bit_operations_syntax

section \<open>Go strings\<close>

text \<open>
  A Go string is a sequence of bytes; it is modelled as a \<open>string\<close> (a list of 8-bit
  characters).  The operation codes, package names and patterns the engine handles are
  ASCII, and on ASCII text \<open>strings.ToUpper\<close> takes its fast path: every byte between
  \<open>'a'\<close> and \<open>'z'\<close> is moved down by \<open>'a' - 'A'\<close>, every other byte is kept.
  The model is that fast path; bytes above 127 are kept as they are.
\<close>

definition upper_byte :: "char \<Rightarrow> char" where
  "upper_byte c =
     (if (97::nat) \<le> of_char c \<and> of_char c \<le> (122::nat)
      then char_of (of_char c - (32::nat)) else c)"

definition lower_byte :: "char \<Rightarrow> char" where
  "lower_byte c =
     (if (65::nat) \<le> of_char c \<and> of_char c \<le> (90::nat)
      then char_of (of_char c + (32::nat)) else c)"

definition ToUpper :: "string \<Rightarrow> string" where
  "ToUpper s = map upper_byte s"

definition HasPrefix :: "string \<Rightarrow> string \<Rightarrow> bool" where
  "HasPrefix s pre = (length pre \<le> length s \<and> take (length pre) s = pre)"

definition HasSuffix :: "string \<Rightarrow> string \<Rightarrow> bool" where
  "HasSuffix s suf = (length suf \<le> length s \<and> drop (length s - length suf) s = suf)"

definition TrimSuffix :: "string \<Rightarrow> string \<Rightarrow> string" where
  "TrimSuffix s suf = (if HasSuffix s suf then take (length s - length suf) s else s)"

text \<open>
  \<open>strings.ContainsRune s r\<close> for an ASCII rune \<open>r\<close>: a byte below 128 never occurs
  inside a multi-byte UTF-8 sequence, so the rune is in the string exactly when the byte is.
\<close>

fun ContainsRune :: "string \<Rightarrow> char \<Rightarrow> bool" where
  "ContainsRune [] r = False"
| "ContainsRune (c # cs) r = (if c = r then True else ContainsRune cs r)"

text \<open>\<open>strings.ContainsAny s chars\<close>: some character of \<open>chars\<close> occurs in \<open>s\<close>.\<close>

fun ContainsAny :: "string \<Rightarrow> string \<Rightarrow> bool" where
  "ContainsAny [] chars = False"
| "ContainsAny (c # cs) chars = (if ContainsRune chars c then True else ContainsAny cs chars)"

section \<open>Safety gate\<close>












section \<open>Base64 encoder of the WebSocket client\<close>

type_synonym byte = "8 word"

definition base64Chars :: string where
  "base64Chars = ''ABCDEFGHIJKLMNOPQRSTUVWXYZabcdefghijklmnopqrstuvwxyz0123456789+/''"

text \<open>
  The loop \<open>for i := 0; i < len(data); i += 3\<close> with its three branches; \<open>b\<close> is a
  \<open>uint32\<close>, and Go's \<open>b>>18&0x3F\<close> is \<open>(b>>18)&0x3F\<close>.
\<close>

function base64Encode_loop :: "byte list \<Rightarrow> nat \<Rightarrow> string \<Rightarrow> string" where
  "base64Encode_loop data i result =
     (if i < length data then
        (let remaining = length data - i in
         if remaining \<ge> 3 then
           (let b = ((push_bit 16 (ucast (data ! i)) OR push_bit 8 (ucast (data ! (i + 1))))
                      OR ucast (data ! (i + 2)) :: 32 word)
            in base64Encode_loop data (i + 3)
                 (result @ [base64Chars ! unat (drop_bit 18 b AND 0x3F),
                            base64Chars ! unat (drop_bit 12 b AND 0x3F),
                            base64Chars ! unat (drop_bit 6 b AND 0x3F),
                            base64Chars ! unat (b AND 0x3F)]))
         else if remaining = 2 then
           (let b = (push_bit 16 (ucast (data ! i)) OR push_bit 8 (ucast (data ! (i + 1))) :: 32 word)
            in base64Encode_loop data (i + 3)
                 (result @ [base64Chars ! unat (drop_bit 18 b AND 0x3F),
                            base64Chars ! unat (drop_bit 12 b AND 0x3F),
                            base64Chars ! unat (drop_bit 6 b AND 0x3F),
                            CHR ''='']))
         else
           (let b = (push_bit 16 (ucast (data ! i)) :: 32 word)
            in base64Encode_loop data (i + 3)
                 (result @ [base64Chars ! unat (drop_bit 18 b AND 0x3F),
                            base64Chars ! unat (drop_bit 12 b AND 0x3F),
                            CHR ''='', CHR ''=''])))
      else result)"
  by pat_completeness auto
termination
  by (relation "measure (\<lambda>(data, i, result). length data - i)") auto

declare base64Encode_loop.simps [simp del]

definition base64Encode :: "byte list \<Rightarrow> string" where
  "base64Encode data = base64Encode_loop data 0 []"

definition bytes_of :: "string \<Rightarrow> byte list" where
  "bytes_of s = map (\<lambda>c. of_char c) s"

definition basicAuth :: "string \<Rightarrow> string \<Rightarrow> string" where
  "basicAuth user password = ''Basic '' @ base64Encode (bytes_of (user @ '':'' @ password))"

subsection \<open>Reference encoding: RFC 4648, section 4\<close>

text \<open>
  The base 64 alphabet of the RFC (its Table 1): values 0 to 25 are the upper-case letters,
  26 to 51 the lower-case letters, 52 to 61 the digits, 62 is \<open>+\<close> and 63 is \<open>/\<close>.
\<close>

definition rfc4648_alphabet :: "nat \<Rightarrow> char" where
  "rfc4648_alphabet v =
     (if v < 26 then char_of (65 + v)
      else if v < 52 then char_of (97 + (v - 26))
      else if v < 62 then char_of (48 + (v - 52))
      else if v = 62 then CHR ''+'' else CHR ''/'')"

text \<open>
  The encoding of the RFC.  Three input bytes form a 24-bit group, read as four 6-bit
  groups, each translated to a character.  A final quantum of 8 bits is extended by four
  zero bits to two 6-bit groups and followed by two pad characters; a final quantum of 16
  bits is extended by two zero bits to three 6-bit groups and followed by one pad character.
\<close>

fun rfc4648_encode :: "byte list \<Rightarrow> string" where
  "rfc4648_encode [] = []"
| "rfc4648_encode [x] =
     (let n = unat x * 2 ^ 4 in
      [rfc4648_alphabet (n div 64), rfc4648_alphabet (n mod 64), CHR ''='', CHR ''=''])"
| "rfc4648_encode [x, y] =
     (let n = (unat x * 2 ^ 8 + unat y) * 2 ^ 2 in
      [rfc4648_alphabet (n div 64 ^ 2), rfc4648_alphabet (n div 64 mod 64),
       rfc4648_alphabet (n mod 64), CHR ''=''])"
| "rfc4648_encode (x # y # z # rest) =
     (let n = unat x * 2 ^ 16 + unat y * 2 ^ 8 + unat z in
      [rfc4648_alphabet (n div 64 ^ 3), rfc4648_alphabet (n div 64 ^ 2 mod 64),
       rfc4648_alphabet (n div 64 mod 64), rfc4648_alphabet (n mod 64)]
      @ rfc4648_encode rest)"

section \<open>Response parsers of the CRUD API\<close>

text \<open>A Go \<open>error\<close> is modelled by its message.\<close>

type_synonym error = string

text \<open>
  \<open>strings.ReplaceAll s old new\<close> for a non-empty \<open>old\<close>: the non-overlapping
  occurrences of \<open>old\<close>, found from left to right, are replaced by \<open>new\<close>.
\<close>

function ReplaceAll :: "string \<Rightarrow> string \<Rightarrow> string \<Rightarrow> string" where
  "ReplaceAll [] old new = []"
| "ReplaceAll (c # cs) old new =
     (if old \<noteq> [] \<and> HasPrefix (c # cs) old
      then new @ ReplaceAll (drop (length old) (c # cs)) old new
      else c # ReplaceAll cs old new)"
  by pat_completeness auto
termination
  by (relation "measure (\<lambda>(s, old, new). length s)") auto

text \<open>
  \<open>xml.Unmarshal\<close> of the standard library.  The decoder first looks for the start
  element of the document, reading tokens; when the input ends before any token,
  \<open>Decoder.Token\<close> returns \<open>io.EOF\<close> and \<open>Unmarshal\<close> returns that error.  So the
  zero-byte input is an error, with the message \<open>EOF\<close>.  What the library makes of a
  non-empty input, for the struct type at hand, is the parameter \<open>decode\<close>.
\<close>

definition xml_Unmarshal :: "(string \<Rightarrow> error + 'a) \<Rightarrow> string \<Rightarrow> error + 'a" where
  "xml_Unmarshal decode data = (if data = [] then Inl ''EOF'' else decode data)"

subsection \<open>Syntax check\<close>

record SyntaxCheckResult =
  URI :: string
  Line :: int
  Offset :: int
  Severity :: string
  Text :: string

text \<open>The decoded \<open>checkRunReports\<close>: reports, each with its list of messages.\<close>

record checkMessage =
  cm_URI :: string
  cm_Type :: string
  cm_ShortText :: string

record checkReport =
  MessageList :: "checkMessage list"

record checkRunReports =
  Reports :: "checkReport list"

definition isDigit :: "char \<Rightarrow> bool" where
  "isDigit c = ((48::nat) \<le> of_char c \<and> of_char c \<le> (57::nat))"

text \<open>
  The regular expression \<open>([^#]+)#start=(\d+),(\d+)\<close>, searched leftmost-first.  No
  character of the first group is a \<open>#\<close>, so a match ends its first group at a \<open>#\<close>
  that follows at least one other character and is followed by \<open>start=\<close>, digits, a
  comma and digits; the groups are greedy.  \<open>start_fragment\<close> matches what follows the
  \<open>#\<close>; \<open>find_fragment\<close> scans the string, \<open>run\<close> being the characters read since the
  last \<open>#\<close>.
\<close>

definition start_fragment :: "string \<Rightarrow> (string \<times> string) option" where
  "start_fragment rest =
     (if HasPrefix rest ''start='' then
        (let r1 = drop 6 rest; d1 = takeWhile isDigit r1; r2 = drop (length d1) r1 in
         if d1 \<noteq> [] \<and> HasPrefix r2 '','' then
           (let d2 = takeWhile isDigit (drop 1 r2) in
            if d2 \<noteq> [] then Some (d1, d2) else None)
         else None)
      else None)"

fun find_fragment :: "string \<Rightarrow> string \<Rightarrow> (string \<times> string \<times> string) option" where
  "find_fragment run [] = None"
| "find_fragment run (c # cs) =
     (if c = CHR ''#'' then
        (if run \<noteq> [] then
           (case start_fragment cs of
              Some (d1, d2) \<Rightarrow> Some (run, d1, d2)
            | None \<Rightarrow> find_fragment [] cs)
         else find_fragment [] cs)
      else find_fragment (run @ [c]) cs)"

definition lineOffsetRegex :: "string \<Rightarrow> (string \<times> string \<times> string) option" where
  "lineOffsetRegex uri = find_fragment [] uri"

text \<open>
  \<open>strconv.Atoi\<close> on a string of decimal digits; the error is dropped by the caller, and
  on overflow the value returned with it is the largest \<open>int\<close> (64 bits).
\<close>

definition digits_value :: "string \<Rightarrow> int" where
  "digits_value ds = foldl (\<lambda>n c. 10 * n + (int (of_char c) - 48)) 0 ds"

definition Atoi :: "string \<Rightarrow> int" where
  "Atoi ds = (if digits_value ds > 2 ^ 63 - 1 then 2 ^ 63 - 1 else digits_value ds)"

definition syntaxResult :: "checkMessage \<Rightarrow> SyntaxCheckResult" where
  "syntaxResult msg =
     (let result = \<lparr>URI = cm_URI msg, Line = 0, Offset = 0, Severity = cm_Type msg,
                     Text = cm_ShortText msg\<rparr>
      in case lineOffsetRegex (cm_URI msg) of
           Some (u, l, off) \<Rightarrow> result\<lparr>URI := u, Line := Atoi l, Offset := Atoi off\<rparr>
         | None \<Rightarrow> result)"

definition parseSyntaxCheckResults ::
  "(string \<Rightarrow> error + checkRunReports) \<Rightarrow> string \<Rightarrow> error + SyntaxCheckResult list" where
  "parseSyntaxCheckResults decode data =
     (let xmlStr = ReplaceAll data ''chkrun:'' '''' in
      case xml_Unmarshal decode xmlStr of
        Inl err \<Rightarrow> Inl (''parsing syntax check response: '' @ err)
      | Inr resp \<Rightarrow>
          Inr (concat (map (\<lambda>report. map syntaxResult (MessageList report)) (Reports resp))))"

subsection \<open>Activation\<close>

record ActivationResultMessage =
  ObjDescr :: string
  msg_Type :: string
  msg_Line :: int
  Href :: string
  ForceSupported :: bool
  ShortText :: string

record InactiveObject =
  io_URI :: string
  io_Type :: string
  io_Name :: string
  ParentURI :: string

record ActivationResult =
  Success :: bool
  Messages :: "ActivationResultMessage list"
  Inactive :: "InactiveObject list"










section \<open>Deployment order of archive files\<close>

record ABAPFile =
  Path :: string
  Filename :: string
  ObjectType :: string
  ObjectName :: string
  IncludeType :: string
  IsXML :: bool
  Content :: string

text \<open>Go compares strings byte by byte: \<open>a < b\<close> is the lexicographic order on bytes.\<close>

fun string_less :: "string \<Rightarrow> string \<Rightarrow> bool" where
  "string_less [] [] = False"
| "string_less [] (y # ys) = True"
| "string_less (x # xs) [] = False"
| "string_less (x # xs) (y # ys) =
     ((of_char x :: nat) < of_char y \<or> (x = y \<and> string_less xs ys))"

text \<open>A \<open>map[string]int\<close> literal, read with \<open>m[k]\<close>: a missing key gives 0.\<close>

definition int_map_lookup :: "(string \<times> nat) list \<Rightarrow> string \<Rightarrow> nat" where
  "int_map_lookup m k = (case map_of m k of Some v \<Rightarrow> v | None \<Rightarrow> 0)"

definition typePriority :: "(string \<times> nat) list" where
  "typePriority =
     [(''INTF'', 1), (''DOMA'', 2), (''DTEL'', 3), (''TABL'', 4), (''DDLS'', 5), (''CLAS'', 6),
      (''PROG'', 7), (''FUGR'', 8), (''FUNC'', 9), (''BDEF'', 10), (''SRVD'', 11),
      (''SRVB'', 12)]"

definition includePriority :: "(string \<times> nat) list" where
  "includePriority =
     [('''', 1), (''locals_def'', 2), (''locals_imp'', 3), (''macros'', 4),
      (''testclasses'', 5)]"

text \<open>The comparison function handed to \<open>sort.SliceStable\<close>.\<close>

definition deployment_less :: "ABAPFile \<Rightarrow> ABAPFile \<Rightarrow> bool" where
  "deployment_less fi fj =
     (if IsXML fi \<noteq> IsXML fj then \<not> IsXML fi
      else
        (let pi0 = int_map_lookup typePriority (ObjectType fi);
             pj0 = int_map_lookup typePriority (ObjectType fj);
             pi = (if pi0 = 0 then 99 else pi0);
             pj = (if pj0 = 0 then 99 else pj0)
         in if pi \<noteq> pj then pi < pj
            else if ObjectName fi \<noteq> ObjectName fj
              then string_less (ObjectName fi) (ObjectName fj)
            else int_map_lookup includePriority (IncludeType fi)
                   < int_map_lookup includePriority (IncludeType fj)))"

text \<open>
  \<open>sort.SliceStable\<close>: a stable sort by the comparison function.  Elements that the
  comparison does not order keep their original order, which for a strict weak ordering
  fixes the result; it is the result of inserting the elements, last first, each before the
  first element that is not smaller than it.
\<close>

fun insertStable :: "('a \<Rightarrow> 'a \<Rightarrow> bool) \<Rightarrow> 'a \<Rightarrow> 'a list \<Rightarrow> 'a list" where
  "insertStable lt x [] = [x]"
| "insertStable lt x (y # ys) =
     (if lt y x then y # insertStable lt x ys else x # y # ys)"

definition SliceStable :: "('a \<Rightarrow> 'a \<Rightarrow> bool) \<Rightarrow> 'a list \<Rightarrow> 'a list" where
  "SliceStable lt xs = foldr (insertStable lt) xs []"

definition DeploymentOrder :: "ABAPFile list \<Rightarrow> ABAPFile list" where
  "DeploymentOrder files = SliceStable deployment_less files"

text \<open>The four files of an archive with one interface and one class.\<close>

definition mkFile :: "string \<Rightarrow> string \<Rightarrow> string \<Rightarrow> string \<Rightarrow> bool \<Rightarrow> ABAPFile" where
  "mkFile filename ty name inc xml =
     \<lparr>Path = ''src/'' @ filename, Filename = filename, ObjectType = ty, ObjectName = name,
      IncludeType = inc, IsXML = xml, Content = []\<rparr>"

definition zif_a_abap :: ABAPFile where
  "zif_a_abap = mkFile ''zif_a.intf.abap'' ''INTF'' ''ZIF_A'' [] False"

definition zif_a_xml :: ABAPFile where
  "zif_a_xml = mkFile ''zif_a.intf.xml'' ''INTF'' ''ZIF_A'' [] True"

definition zcl_b_abap :: ABAPFile where
  "zcl_b_abap = mkFile ''zcl_b.clas.abap'' ''CLAS'' ''ZCL_B'' [] False"

definition zcl_b_xml :: ABAPFile where
  "zcl_b_xml = mkFile ''zcl_b.clas.xml'' ''CLAS'' ''ZCL_B'' [] True"

section \<open>The ADT client seen from the workflows\<close>

record LockResult =
  LockHandle :: string
  CorrNr :: string
  CorrUser :: string
  CorrText :: string
  IsLocal :: bool
  IsLinkUp :: bool
  ModificationSupport :: string

text \<open>
  \<open>CreatableObjectType\<close> is a string type with named constants; the constants are the
  values of the datatype.  The deployment handler also names the constants for DDLS, BDEF
  and SRVD sources.
\<close>

datatype CreatableObjectType =
    ObjectTypeProgram | ObjectTypeInclude | ObjectTypeClass | ObjectTypeInterface
  | ObjectTypeFunctionGroup | ObjectTypeFunctionMod | ObjectTypeTable | ObjectTypePackage
  | ObjectTypeDDLS | ObjectTypeBDEF | ObjectTypeSRVD

record CreateObjectOptions =
  opt_ObjectType :: CreatableObjectType
  opt_Name :: string
  opt_Description :: string
  opt_PackageName :: string
  opt_Transport :: string
  opt_Responsible :: string
  opt_ParentName :: string

type_synonym ClassIncludeType = string

definition ClassIncludeTestClasses :: ClassIncludeType where
  "ClassIncludeTestClasses = ''testclasses''"

record UnitTestRunFlags =
  Harmless :: bool
  Dangerous :: bool
  Critical :: bool
  Short :: bool
  Medium :: bool
  Long :: bool

definition DefaultUnitTestFlags :: UnitTestRunFlags where
  "DefaultUnitTestFlags =
     \<lparr>Harmless = True, Dangerous = False, Critical = False, Short = True, Medium = True,
      Long = False\<rparr>"

text \<open>
  What the deployment handler reads of the results of \<open>GetPackage\<close> and
  \<open>ActivatePackageIterative\<close>.
\<close>

record PackageContent =
  pkg_URI :: string

record ActivationPass =
  Activated :: "string list"
  Failed :: "string list"

record IterativeActivationResult =
  Passes :: "ActivationPass list"
  TotalActivated :: nat
  Iterations :: nat
  StillInactive :: nat
  Summary :: string

text \<open>
  Every method of the client is a request to the SAP system.  The system is a state
  \<open>'s\<close> and, for each method, a function from the arguments and the state to the outcome
  and the next state: nothing is assumed about how it answers.  \<open>'t\<close> is the type of a
  unit test report.  An outcome is the error or the value; a method that returns only an
  \<open>error\<close> has the outcome \<open>None\<close> for nil.
\<close>

record ('s, 't) Client =
  SyntaxCheck :: "string \<Rightarrow> string \<Rightarrow> 's \<Rightarrow> (error + SyntaxCheckResult list) \<times> 's"
  LockObject :: "string \<Rightarrow> string \<Rightarrow> 's \<Rightarrow> (error + LockResult) \<times> 's"
  UpdateSource :: "string \<Rightarrow> string \<Rightarrow> string \<Rightarrow> string \<Rightarrow> 's \<Rightarrow> error option \<times> 's"
  UnlockObject :: "string \<Rightarrow> string \<Rightarrow> 's \<Rightarrow> error option \<times> 's"
  Activate :: "string \<Rightarrow> string \<Rightarrow> 's \<Rightarrow> (error + ActivationResult) \<times> 's"
  CreateObject :: "CreateObjectOptions \<Rightarrow> 's \<Rightarrow> error option \<times> 's"
  CreateTestInclude :: "string \<Rightarrow> string \<Rightarrow> string \<Rightarrow> 's \<Rightarrow> error option \<times> 's"
  UpdateClassInclude ::
    "string \<Rightarrow> ClassIncludeType \<Rightarrow> string \<Rightarrow> string \<Rightarrow> string \<Rightarrow> 's \<Rightarrow> error option \<times> 's"
  RunUnitTests :: "string \<Rightarrow> UnitTestRunFlags \<Rightarrow> 's \<Rightarrow> (error + 't) \<times> 's"
  GetPackage :: "string \<Rightarrow> 's \<Rightarrow> (error + PackageContent) \<times> 's"
  ActivatePackageIterative ::
    "string \<Rightarrow> nat \<Rightarrow> 's \<Rightarrow> (error + IterativeActivationResult) \<times> 's"

text \<open>The requests issued, in order, each with its arguments and its outcome.\<close>

datatype 't event =
    EvSyntaxCheck string string "error + SyntaxCheckResult list"
  | EvLockObject string string "error + LockResult"
  | EvUpdateSource string string string string "error option"
  | EvUnlockObject string string "error option"
  | EvActivate string string "error + ActivationResult"
  | EvCreateObject CreateObjectOptions "error option"
  | EvCreateTestInclude string string string "error option"
  | EvUpdateClassInclude string ClassIncludeType string string string "error option"
  | EvRunUnitTests string UnitTestRunFlags "error + 't"
  | EvGetPackage string "error + PackageContent"
  | EvActivatePackageIterative string nat "error + IterativeActivationResult"

record ('s, 't) world =
  trace :: "'t event list"
  remote :: 's

definition fresh :: "'s \<Rightarrow> ('s, 't) world" where
  "fresh s = \<lparr>trace = [], remote = s\<rparr>"

definition perform :: "('r \<Rightarrow> 't event) \<Rightarrow> ('s \<Rightarrow> 'r \<times> 's) \<Rightarrow> ('s, 't) world \<Rightarrow> 'r \<times> ('s, 't) world" where
  "perform ev f w =
     (case f (remote w) of (r, s') \<Rightarrow> (r, \<lparr>trace = trace w @ [ev r], remote = s'\<rparr>))"

definition doSyntaxCheck where
  "doSyntaxCheck c objectURL content = perform (EvSyntaxCheck objectURL content) (SyntaxCheck c objectURL content)"

definition doLockObject where
  "doLockObject c objectURL accessMode =
     perform (EvLockObject objectURL accessMode) (LockObject c objectURL accessMode)"

definition doUpdateSource where
  "doUpdateSource c sourceURL source lockHandle transport =
     perform (EvUpdateSource sourceURL source lockHandle transport)
       (UpdateSource c sourceURL source lockHandle transport)"

definition doUnlockObject where
  "doUnlockObject c objectURL lockHandle =
     perform (EvUnlockObject objectURL lockHandle) (UnlockObject c objectURL lockHandle)"

definition doActivate where
  "doActivate c objectURL objectName =
     perform (EvActivate objectURL objectName) (Activate c objectURL objectName)"

definition doCreateObject where
  "doCreateObject c opts = perform (EvCreateObject opts) (CreateObject c opts)"

definition doCreateTestInclude where
  "doCreateTestInclude c className lockHandle transport =
     perform (EvCreateTestInclude className lockHandle transport)
       (CreateTestInclude c className lockHandle transport)"

definition doUpdateClassInclude where
  "doUpdateClassInclude c className includeType source lockHandle transport =
     perform (EvUpdateClassInclude className includeType source lockHandle transport)
       (UpdateClassInclude c className includeType source lockHandle transport)"

definition doRunUnitTests where
  "doRunUnitTests c objectURL flags =
     perform (EvRunUnitTests objectURL flags) (RunUnitTests c objectURL flags)"

definition doGetPackage where
  "doGetPackage c name = perform (EvGetPackage name) (GetPackage c name)"

definition doActivatePackageIterative where
  "doActivatePackageIterative c name maxPasses =
     perform (EvActivatePackageIterative name maxPasses) (ActivatePackageIterative c name maxPasses)"

section \<open>Workflows\<close>

text \<open>
  Each workflow returns its result with a nil error on every path, so the model returns the
  result and the world.  The deferred function registered after the lock runs when the
  workflow returns: it issues an unlock when the result is not a success, and drops the
  unlock's error.
\<close>

definition severe :: "SyntaxCheckResult \<Rightarrow> bool" where
  "severe se = (Severity se = ''E'' \<or> Severity se = ''A'' \<or> Severity se = ''X'')"

subsection \<open>WriteProgram\<close>

record WriteProgramResult =
  wp_Success :: bool
  wp_ProgramName :: string
  wp_ObjectURL :: string
  wp_SyntaxErrors :: "SyntaxCheckResult list"
  wp_Activation :: "ActivationResult option"
  wp_Message :: string

text \<open>Steps 3 to 5, between the registration of the deferred unlock and the return.\<close>

definition WriteProgram_locked ::
  "('s, 't) Client \<Rightarrow> string \<Rightarrow> string \<Rightarrow> string \<Rightarrow> string \<Rightarrow> string \<Rightarrow> LockResult \<Rightarrow>
   WriteProgramResult \<Rightarrow> ('s, 't) world \<Rightarrow> WriteProgramResult \<times> ('s, 't) world" where
  "WriteProgram_locked c programName objectURL sourceURL source transport lock result w =
     (case doUpdateSource c sourceURL source (LockHandle lock) transport w of
        (Some err, w1) \<Rightarrow> (result\<lparr>wp_Message := ''Failed to update source: '' @ err\<rparr>, w1)
      | (None, w1) \<Rightarrow>
     (case doUnlockObject c objectURL (LockHandle lock) w1 of
        (Some err, w2) \<Rightarrow> (result\<lparr>wp_Message := ''Failed to unlock object: '' @ err\<rparr>, w2)
      | (None, w2) \<Rightarrow>
     (case doActivate c objectURL programName w2 of
        (Inl err, w3) \<Rightarrow>
          (result\<lparr>wp_Message := ''Failed to activate: '' @ err, wp_Activation := None\<rparr>, w3)
      | (Inr activation, w3) \<Rightarrow>
          (if Success activation
           then result\<lparr>wp_Activation := Some activation, wp_Success := True,
                  wp_Message := ''Program updated and activated successfully''\<rparr>
           else result\<lparr>wp_Activation := Some activation,
                  wp_Message := ''Activation failed - check activation messages''\<rparr>, w3))))"

definition WriteProgram ::
  "('s, 't) Client \<Rightarrow> string \<Rightarrow> string \<Rightarrow> string \<Rightarrow> ('s, 't) world \<Rightarrow>
   WriteProgramResult \<times> ('s, 't) world" where
  "WriteProgram c programName0 source transport w =
     (let programName = ToUpper programName0;
          objectURL = ''/sap/bc/adt/programs/programs/'' @ programName;
          sourceURL = objectURL @ ''/source/main'';
          result = \<lparr>wp_Success = False, wp_ProgramName = programName, wp_ObjectURL = objectURL,
                    wp_SyntaxErrors = [], wp_Activation = None, wp_Message = []\<rparr>
      in case doSyntaxCheck c objectURL source w of
           (Inl err, w1) \<Rightarrow> (result\<lparr>wp_Message := ''Syntax check failed: '' @ err\<rparr>, w1)
         | (Inr syntaxErrors, w1) \<Rightarrow>
             if list_ex severe syntaxErrors
             then (result\<lparr>wp_SyntaxErrors := syntaxErrors,
                     wp_Message := ''Source has syntax errors - not saved''\<rparr>, w1)
             else
               (case doLockObject c objectURL ''MODIFY'' w1 of
                  (Inl err, w2) \<Rightarrow>
                    (result\<lparr>wp_SyntaxErrors := syntaxErrors,
                       wp_Message := ''Failed to lock object: '' @ err\<rparr>, w2)
                | (Inr lock, w2) \<Rightarrow>
                    (case WriteProgram_locked c programName objectURL sourceURL source transport
                            lock (result\<lparr>wp_SyntaxErrors := syntaxErrors\<rparr>) w2 of
                       (result', w3) \<Rightarrow>
                         if \<not> wp_Success result'
                         then (result', snd (doUnlockObject c objectURL (LockHandle lock) w3))
                         else (result', w3))))"

subsection \<open>WriteClass\<close>

record WriteClassResult =
  wc_Success :: bool
  wc_ClassName :: string
  wc_ObjectURL :: string
  wc_SyntaxErrors :: "SyntaxCheckResult list"
  wc_Activation :: "ActivationResult option"
  wc_Message :: string

definition WriteClass_locked ::
  "('s, 't) Client \<Rightarrow> string \<Rightarrow> string \<Rightarrow> string \<Rightarrow> string \<Rightarrow> string \<Rightarrow> LockResult \<Rightarrow>
   WriteClassResult \<Rightarrow> ('s, 't) world \<Rightarrow> WriteClassResult \<times> ('s, 't) world" where
  "WriteClass_locked c className objectURL sourceURL source transport lock result w =
     (case doUpdateSource c sourceURL source (LockHandle lock) transport w of
        (Some err, w1) \<Rightarrow> (result\<lparr>wc_Message := ''Failed to update source: '' @ err\<rparr>, w1)
      | (None, w1) \<Rightarrow>
     (case doUnlockObject c objectURL (LockHandle lock) w1 of
        (Some err, w2) \<Rightarrow> (result\<lparr>wc_Message := ''Failed to unlock object: '' @ err\<rparr>, w2)
      | (None, w2) \<Rightarrow>
     (case doActivate c objectURL className w2 of
        (Inl err, w3) \<Rightarrow>
          (result\<lparr>wc_Message := ''Failed to activate: '' @ err, wc_Activation := None\<rparr>, w3)
      | (Inr activation, w3) \<Rightarrow>
          (if Success activation
           then result\<lparr>wc_Activation := Some activation, wc_Success := True,
                  wc_Message := ''Class updated and activated successfully''\<rparr>
           else result\<lparr>wc_Activation := Some activation,
                  wc_Message := ''Activation failed - check activation messages''\<rparr>, w3))))"

definition WriteClass ::
  "('s, 't) Client \<Rightarrow> string \<Rightarrow> string \<Rightarrow> string \<Rightarrow> ('s, 't) world \<Rightarrow>
   WriteClassResult \<times> ('s, 't) world" where
  "WriteClass c className0 source transport w =
     (let className = ToUpper className0;
          objectURL = ''/sap/bc/adt/oo/classes/'' @ className;
          sourceURL = objectURL @ ''/source/main'';
          result = \<lparr>wc_Success = False, wc_ClassName = className, wc_ObjectURL = objectURL,
                    wc_SyntaxErrors = [], wc_Activation = None, wc_Message = []\<rparr>
      in case doSyntaxCheck c objectURL source w of
           (Inl err, w1) \<Rightarrow> (result\<lparr>wc_Message := ''Syntax check failed: '' @ err\<rparr>, w1)
         | (Inr syntaxErrors, w1) \<Rightarrow>
             if list_ex severe syntaxErrors
             then (result\<lparr>wc_SyntaxErrors := syntaxErrors,
                     wc_Message := ''Source has syntax errors - not saved''\<rparr>, w1)
             else
               (case doLockObject c objectURL ''MODIFY'' w1 of
                  (Inl err, w2) \<Rightarrow>
                    (result\<lparr>wc_SyntaxErrors := syntaxErrors,
                       wc_Message := ''Failed to lock object: '' @ err\<rparr>, w2)
                | (Inr lock, w2) \<Rightarrow>
                    (case WriteClass_locked c className objectURL sourceURL source transport
                            lock (result\<lparr>wc_SyntaxErrors := syntaxErrors\<rparr>) w2 of
                       (result', w3) \<Rightarrow>
                         if \<not> wc_Success result'
                         then (result', snd (doUnlockObject c objectURL (LockHandle lock) w3))
                         else (result', w3))))"

subsection \<open>CreateAndActivateProgram\<close>

record CreateProgramResult =
  cp_Success :: bool
  cp_ProgramName :: string
  cp_ObjectURL :: string
  cp_SyntaxErrors :: "SyntaxCheckResult list"
  cp_Activation :: "ActivationResult option"
  cp_Message :: string

definition CreateAndActivateProgram_locked ::
  "('s, 't) Client \<Rightarrow> string \<Rightarrow> string \<Rightarrow> string \<Rightarrow> string \<Rightarrow> string \<Rightarrow> LockResult \<Rightarrow>
   CreateProgramResult \<Rightarrow> ('s, 't) world \<Rightarrow> CreateProgramResult \<times> ('s, 't) world" where
  "CreateAndActivateProgram_locked c programName objectURL sourceURL source transport lock result w =
     (case doUpdateSource c sourceURL source (LockHandle lock) transport w of
        (Some err, w1) \<Rightarrow> (result\<lparr>cp_Message := ''Failed to update source: '' @ err\<rparr>, w1)
      | (None, w1) \<Rightarrow>
     (case doUnlockObject c objectURL (LockHandle lock) w1 of
        (Some err, w2) \<Rightarrow> (result\<lparr>cp_Message := ''Failed to unlock object: '' @ err\<rparr>, w2)
      | (None, w2) \<Rightarrow>
     (case doActivate c objectURL programName w2 of
        (Inl err, w3) \<Rightarrow>
          (result\<lparr>cp_Message := ''Failed to activate: '' @ err, cp_Activation := None\<rparr>, w3)
      | (Inr activation, w3) \<Rightarrow>
          (if Success activation
           then result\<lparr>cp_Activation := Some activation, cp_Success := True,
                  cp_Message := ''Program created and activated successfully''\<rparr>
           else result\<lparr>cp_Activation := Some activation,
                  cp_Message := ''Activation failed - check activation messages''\<rparr>, w3))))"

definition CreateAndActivateProgram ::
  "('s, 't) Client \<Rightarrow> string \<Rightarrow> string \<Rightarrow> string \<Rightarrow> string \<Rightarrow> string \<Rightarrow> ('s, 't) world \<Rightarrow>
   CreateProgramResult \<times> ('s, 't) world" where
  "CreateAndActivateProgram c programName0 description packageName0 source transport w =
     (let programName = ToUpper programName0;
          packageName = ToUpper packageName0;
          objectURL = ''/sap/bc/adt/programs/programs/'' @ programName;
          sourceURL = objectURL @ ''/source/main'';
          result = \<lparr>cp_Success = False, cp_ProgramName = programName, cp_ObjectURL = objectURL,
                    cp_SyntaxErrors = [], cp_Activation = None, cp_Message = []\<rparr>
      in case doCreateObject c
                \<lparr>opt_ObjectType = ObjectTypeProgram, opt_Name = programName,
                 opt_Description = description, opt_PackageName = packageName,
                 opt_Transport = transport, opt_Responsible = [], opt_ParentName = []\<rparr> w of
           (Some err, w1) \<Rightarrow> (result\<lparr>cp_Message := ''Failed to create program: '' @ err\<rparr>, w1)
         | (None, w1) \<Rightarrow>
             (case doLockObject c objectURL ''MODIFY'' w1 of
                (Inl err, w2) \<Rightarrow> (result\<lparr>cp_Message := ''Failed to lock object: '' @ err\<rparr>, w2)
              | (Inr lock, w2) \<Rightarrow>
                  (case CreateAndActivateProgram_locked c programName objectURL sourceURL source
                          transport lock result w2 of
                     (result', w3) \<Rightarrow>
                       if \<not> cp_Success result'
                       then (result', snd (doUnlockObject c objectURL (LockHandle lock) w3))
                       else (result', w3))))"

subsection \<open>CreateClassWithTests\<close>

record 't CreateClassWithTestsResult =
  ct_Success :: bool
  ct_ClassName :: string
  ct_ObjectURL :: string
  ct_Activation :: "ActivationResult option"
  ct_UnitTestResult :: "'t option"
  ct_Message :: string

definition CreateClassWithTests_locked ::
  "('s, 't) Client \<Rightarrow> string \<Rightarrow> string \<Rightarrow> string \<Rightarrow> string \<Rightarrow> string \<Rightarrow> string \<Rightarrow>
   LockResult \<Rightarrow> 't CreateClassWithTestsResult \<Rightarrow> ('s, 't) world \<Rightarrow>
   't CreateClassWithTestsResult \<times> ('s, 't) world" where
  "CreateClassWithTests_locked c className objectURL sourceURL classSource testSource transport
       lock result w =
     (case doUpdateSource c sourceURL classSource (LockHandle lock) transport w of
        (Some err, w1) \<Rightarrow> (result\<lparr>ct_Message := ''Failed to update class source: '' @ err\<rparr>, w1)
      | (None, w1) \<Rightarrow>
     (case doCreateTestInclude c className (LockHandle lock) transport w1 of
        (Some err, w2) \<Rightarrow> (result\<lparr>ct_Message := ''Failed to create test include: '' @ err\<rparr>, w2)
      | (None, w2) \<Rightarrow>
     (case doUpdateClassInclude c className ClassIncludeTestClasses testSource (LockHandle lock)
             transport w2 of
        (Some err, w3) \<Rightarrow> (result\<lparr>ct_Message := ''Failed to update test source: '' @ err\<rparr>, w3)
      | (None, w3) \<Rightarrow>
     (case doUnlockObject c objectURL (LockHandle lock) w3 of
        (Some err, w4) \<Rightarrow> (result\<lparr>ct_Message := ''Failed to unlock object: '' @ err\<rparr>, w4)
      | (None, w4) \<Rightarrow>
     (case doActivate c objectURL className w4 of
        (Inl err, w5) \<Rightarrow>
          (result\<lparr>ct_Message := ''Failed to activate: '' @ err, ct_Activation := None\<rparr>, w5)
      | (Inr activation, w5) \<Rightarrow>
          if \<not> Success activation
          then (result\<lparr>ct_Activation := Some activation,
                  ct_Message := ''Activation failed - check activation messages''\<rparr>, w5)
          else
            (case doRunUnitTests c objectURL DefaultUnitTestFlags w5 of
               (Inl err, w6) \<Rightarrow>
                 (result\<lparr>ct_Activation := Some activation,
                    ct_Message := ''Class activated but unit tests failed to run: '' @ err,
                    ct_Success := True\<rparr>, w6)
             | (Inr testResult, w6) \<Rightarrow>
                 (result\<lparr>ct_Activation := Some activation, ct_UnitTestResult := Some testResult,
                    ct_Success := True,
                    ct_Message :=
                      ''Class created, activated, and unit tests executed successfully''\<rparr>,
                  w6)))))))"

definition CreateClassWithTests ::
  "('s, 't) Client \<Rightarrow> string \<Rightarrow> string \<Rightarrow> string \<Rightarrow> string \<Rightarrow> string \<Rightarrow> string \<Rightarrow>
   ('s, 't) world \<Rightarrow> 't CreateClassWithTestsResult \<times> ('s, 't) world" where
  "CreateClassWithTests c className0 description packageName0 classSource testSource transport w =
     (let className = ToUpper className0;
          packageName = ToUpper packageName0;
          objectURL = ''/sap/bc/adt/oo/classes/'' @ className;
          sourceURL = objectURL @ ''/source/main'';
          result = \<lparr>ct_Success = False, ct_ClassName = className, ct_ObjectURL = objectURL,
                    ct_Activation = None, ct_UnitTestResult = None, ct_Message = []\<rparr>
      in case doCreateObject c
                \<lparr>opt_ObjectType = ObjectTypeClass, opt_Name = className,
                 opt_Description = description, opt_PackageName = packageName,
                 opt_Transport = transport, opt_Responsible = [], opt_ParentName = []\<rparr> w of
           (Some err, w1) \<Rightarrow> (result\<lparr>ct_Message := ''Failed to create class: '' @ err\<rparr>, w1)
         | (None, w1) \<Rightarrow>
             (case doLockObject c objectURL ''MODIFY'' w1 of
                (Inl err, w2) \<Rightarrow> (result\<lparr>ct_Message := ''Failed to lock object: '' @ err\<rparr>, w2)
              | (Inr lock, w2) \<Rightarrow>
                  (case CreateClassWithTests_locked c className objectURL sourceURL classSource
                          testSource transport lock result w2 of
                     (result', w3) \<Rightarrow>
                       if \<not> ct_Success result'
                       then (result', snd (doUnlockObject c objectURL (LockHandle lock) w3))
                       else (result', w3))))"

subsection \<open>Counting the requests of a run\<close>

fun is_unlock_of :: "string \<Rightarrow> string \<Rightarrow> 't event \<Rightarrow> bool" where
  "is_unlock_of u h (EvUnlockObject u' h' r) = (u' = u \<and> h' = h)"
| "is_unlock_of u h _ = False"

definition unlocks_of :: "string \<Rightarrow> string \<Rightarrow> 't event list \<Rightarrow> nat" where
  "unlocks_of u h tr = length (filter (is_unlock_of u h) tr)"

text \<open>A write under the lock that failed: a source upload or the creation of the test include.\<close>

fun is_failed_write :: "'t event \<Rightarrow> bool" where
  "is_failed_write (EvUpdateSource u src h t (Some err)) = True"
| "is_failed_write (EvCreateTestInclude n h t (Some err)) = True"
| "is_failed_write (EvUpdateClassInclude n i src h t (Some err)) = True"
| "is_failed_write _ = False"

fun is_lock :: "'t event \<Rightarrow> bool" where
  "is_lock (EvLockObject u m r) = True"
| "is_lock _ = False"

fun is_update :: "'t event \<Rightarrow> bool" where
  "is_update (EvUpdateSource u src h t r) = True"
| "is_update (EvCreateTestInclude n h t r) = True"
| "is_update (EvUpdateClassInclude n i src h t r) = True"
| "is_update _ = False"

fun is_syntax_check :: "'t event \<Rightarrow> bool" where
  "is_syntax_check (EvSyntaxCheck u src r) = True"
| "is_syntax_check _ = False"

subsection \<open>A sample SAP system\<close>

text \<open>
  A system without state on which every request succeeds; \<open>diagnostics\<close> is its answer
  to a syntax check and \<open>activates\<close> tells whether its activations succeed.
\<close>

definition sample_lock :: LockResult where
  "sample_lock =
     \<lparr>LockHandle = ''H1'', CorrNr = [], CorrUser = [], CorrText = [], IsLocal = True,
      IsLinkUp = False, ModificationSupport = []\<rparr>"

definition sample_client :: "SyntaxCheckResult list \<Rightarrow> bool \<Rightarrow> (unit, unit) Client" where
  "sample_client diagnostics activates =
     \<lparr>SyntaxCheck = (\<lambda>objectURL content s. (Inr diagnostics, s)),
      LockObject = (\<lambda>objectURL accessMode s. (Inr sample_lock, s)),
      UpdateSource = (\<lambda>sourceURL source lockHandle transport s. (None, s)),
      UnlockObject = (\<lambda>objectURL lockHandle s. (None, s)),
      Activate = (\<lambda>objectURL objectName s.
        (Inr \<lparr>Success = activates, Messages = [], Inactive = []\<rparr>, s)),
      CreateObject = (\<lambda>opts s. (None, s)),
      CreateTestInclude = (\<lambda>className lockHandle transport s. (None, s)),
      UpdateClassInclude = (\<lambda>className includeType source lockHandle transport s. (None, s)),
      RunUnitTests = (\<lambda>objectURL flags s. (Inr (), s)),
      GetPackage = (\<lambda>name s. (Inr \<lparr>pkg_URI = ''/sap/bc/adt/packages/'' @ name\<rparr>, s)),
      ActivatePackageIterative = (\<lambda>name maxPasses s.
        (Inr \<lparr>Passes = [], TotalActivated = 0, Iterations = 0, StillInactive = 0,
              Summary = []\<rparr>, s))\<rparr>"

definition sample_error :: SyntaxCheckResult where
  "sample_error =
     \<lparr>URI = ''/sap/bc/adt/programs/programs/ZTEST/source/main'', Line = 1, Offset = 0,
      Severity = ''E'', Text = ''Statement is not defined''\<rparr>"

text \<open>
  The requests issued between the lock and the return, before the deferred function runs:
  no lock and no syntax check among them; no unlock of the handle if a write under the lock
  failed, and exactly one otherwise; and a success only if no write failed.
\<close>

definition locked_events_ok :: "string \<Rightarrow> string \<Rightarrow> bool \<Rightarrow> 't event list \<Rightarrow> bool" where
  "locked_events_ok u h success new =
     (\<not> list_ex is_lock new \<and> \<not> list_ex is_syntax_check new \<and>
      unlocks_of u h new = (if list_ex is_failed_write new then 0 else 1) \<and>
      (success \<longrightarrow> \<not> list_ex is_failed_write new))"

section \<open>Embedded dependency archives\<close>

definition ToLower :: "string \<Rightarrow> string" where
  "ToLower s = map lower_byte s"

text \<open>\<open>strings.Contains s sub\<close>: \<open>sub\<close> occurs in \<open>s\<close>.\<close>

fun Contains :: "string \<Rightarrow> string \<Rightarrow> bool" where
  "Contains [] sub = (sub = [])"
| "Contains (c # cs) sub = (if HasPrefix (c # cs) sub then True else Contains cs sub)"

text \<open>\<open>strings.Join elems sep\<close>.\<close>

fun Join :: "string list \<Rightarrow> string \<Rightarrow> string" where
  "Join [] sep = []"
| "Join [e] sep = e"
| "Join (e # es) sep = e @ sep @ Join es sep"

text \<open>
  \<open>strings.Split s "."\<close>: the pieces of \<open>s\<close> between the dots; there is always at least
  one piece.  \<open>cur\<close> is the piece being read.
\<close>

fun split_dots :: "string \<Rightarrow> string \<Rightarrow> string list" where
  "split_dots cur [] = [cur]"
| "split_dots cur (c # cs) =
     (if c = CHR ''.'' then cur # split_dots [] cs else split_dots (cur @ [c]) cs)"

definition Split_dot :: "string \<Rightarrow> string list" where
  "Split_dot s = split_dots [] s"

text \<open>
  \<open>filepath.Base\<close> with the separator \<open>/\<close>: the last element of the path, after the
  trailing slashes are removed; \<open>.\<close> for the empty path and \<open>/\<close> for a path of slashes.
\<close>

definition strip_slashes :: "string \<Rightarrow> string" where
  "strip_slashes p = rev (dropWhile (\<lambda>c. c = CHR ''/'') (rev p))"

definition Base :: "string \<Rightarrow> string" where
  "Base p =
     (if p = [] then ''.''
      else if strip_slashes p = [] then ''/''
      else rev (takeWhile (\<lambda>c. c \<noteq> CHR ''/'') (rev (strip_slashes p))))"

record DependencyInfo =
  dep_Name :: string
  dep_Description :: string
  dep_Package :: string
  Available :: bool
  FileCount :: int
  dep_Objects :: "string list"

definition GetAvailableDependencies :: "DependencyInfo list" where
  "GetAvailableDependencies =
     [\<lparr>dep_Name = ''abapgit-standalone'',
       dep_Description = ''abapGit standalone program (single file ZABAPGIT)'',
       dep_Package = ''$ABAPGIT'', Available = False, FileCount = 0, dep_Objects = []\<rparr>,
      \<lparr>dep_Name = ''abapgit-dev'',
       dep_Description = ''abapGit developer edition (full $ZGIT_DEV* packages)'',
       dep_Package = ''$ZGIT_DEV'', Available = False, FileCount = 0, dep_Objects = []\<rparr>]"

text \<open>
  \<open>GetDependencyZIP\<close>: both cases of the switch are empty (the embedded archives are
  commented out), so the function returns nil for every name.
\<close>

definition GetDependencyZIP :: "string \<Rightarrow> string option" where
  "GetDependencyZIP source = None"

definition typeMap :: "(string \<times> string) list" where
  "typeMap =
     [(''clas'', ''CLAS''), (''intf'', ''INTF''), (''prog'', ''PROG''), (''fugr'', ''FUGR''),
      (''func'', ''FUNC''), (''ddls'', ''DDLS''), (''doma'', ''DOMA''), (''dtel'', ''DTEL''),
      (''tabl'', ''TABL''), (''view'', ''VIEW''), (''bdef'', ''BDEF''), (''srvd'', ''SRVD''),
      (''srvb'', ''SRVB''), (''ttyp'', ''TTYP''), (''msag'', ''MSAG''), (''enqu'', ''ENQU''),
      (''shlp'', ''SHLP''), (''tran'', ''TRAN''), (''devc'', ''DEVC'')]"

text \<open>The first of the source extensions that the name ends with is removed.\<close>

fun trim_source_ext :: "string list \<Rightarrow> string \<Rightarrow> string" where
  "trim_source_ext [] filename = filename"
| "trim_source_ext (ext # exts) filename =
     (if HasSuffix filename ext then TrimSuffix filename ext else trim_source_ext exts filename)"

definition ParseAbapGitFilename :: "string \<Rightarrow> string \<times> string \<times> string \<times> bool" where
  "ParseAbapGitFilename filename0 =
     (let filename1 = Base filename0;
          isXML = HasSuffix filename1 ''.xml'';
          filename = (if isXML then TrimSuffix filename1 ''.xml''
                      else trim_source_ext [''.abap'', ''.asddls'', ''.asbdef'', ''.srvdsrv'']
                             filename1);
          parts = Split_dot filename
      in if length parts < 2 then ([], [], [], isXML)
         else
           (let objectName = ToUpper (parts ! 0);
                objectType = (case map_of typeMap (parts ! 1) of Some t \<Rightarrow> t | None \<Rightarrow> []);
                includeType =
                  (if length parts \<ge> 3 \<and>
                      parts ! 2 \<in> set [''locals_def'', ''locals_imp'', ''testclasses'', ''macros'']
                   then parts ! 2 else [])
            in (objectType, objectName, includeType, isXML)))"

definition isAbapGitFile :: "string \<Rightarrow> bool" where
  "isAbapGitFile filename =
     list_ex (HasSuffix filename) [''.abap'', ''.asddls'', ''.asbdef'', ''.srvdsrv'', ''.xml'']"

text \<open>
  An entry of a ZIP archive as \<open>archive/zip\<close> presents it: its name, whether it is a
  directory, and what opening and reading it gives.  The reader of the library, from the
  bytes of an archive to its entries or an error, is the parameter \<open>zipReader\<close>.
\<close>

datatype zipData = OpenFails error | ReadFails error | Contents string

record zipEntry =
  ze_Name :: string
  ze_IsDir :: bool
  ze_Data :: zipData

fun unzipEntries :: "zipEntry list \<Rightarrow> ABAPFile list \<Rightarrow> error + ABAPFile list" where
  "unzipEntries [] files = Inr files"
| "unzipEntries (f # fs) files =
     (if ze_IsDir f then unzipEntries fs files
      else let filename = Base (ze_Name f) in
        if \<not> isAbapGitFile filename then unzipEntries fs files
        else case ze_Data f of
          OpenFails err \<Rightarrow> Inl (''failed to open '' @ ze_Name f @ '': '' @ err)
        | ReadFails err \<Rightarrow> Inl (''failed to read '' @ ze_Name f @ '': '' @ err)
        | Contents content \<Rightarrow>
            (case ParseAbapGitFilename filename of
               (objectType, objectName, includeType, isXML) \<Rightarrow>
                 unzipEntries fs
                   (files @ [\<lparr>Path = ze_Name f, Filename = filename, ObjectType = objectType,
                              ObjectName = objectName, IncludeType = includeType,
                              IsXML = isXML, Content = content\<rparr>])))"

definition UnzipInMemory :: "(string \<Rightarrow> error + zipEntry list) \<Rightarrow> string \<Rightarrow> error + ABAPFile list" where
  "UnzipInMemory zipReader zipData =
     (case zipReader zipData of
        Inl err \<Rightarrow> Inl (''failed to open ZIP: '' @ err)
      | Inr entries \<Rightarrow> unzipEntries entries [])"

text \<open>
  \<open>GroupByObject\<close> builds a map from the key of an object to its files, in the order of
  the input; \<open>groupOf\<close> is the lookup in that map and \<open>groupKeys\<close> its keys.
\<close>

definition objectKey :: "ABAPFile \<Rightarrow> string" where
  "objectKey f = ObjectType f @ ''/'' @ ObjectName f"

definition groupOf :: "ABAPFile list \<Rightarrow> string \<Rightarrow> ABAPFile list" where
  "groupOf files key = filter (\<lambda>f. objectKey f = key) files"

definition groupKeys :: "ABAPFile list \<Rightarrow> string list" where
  "groupKeys files = remdups (map objectKey files)"

text \<open>
  The regular expression \<open><DESCRIPT>([^<]+)</DESCRIPT>\<close>, searched leftmost-first: at the
  first position where the opening tag is followed by at least one character other than
  \<open><\<close> and then by the closing tag, the characters between the tags.
\<close>

fun ExtractDescription :: "string \<Rightarrow> string" where
  "ExtractDescription [] = []"
| "ExtractDescription (c # cs) =
     (if HasPrefix (c # cs) ''<DESCRIPT>'' then
        (let rest = drop 10 (c # cs);
             body = takeWhile (\<lambda>x. x \<noteq> CHR ''<'') rest
         in if body \<noteq> [] \<and> HasPrefix (drop (length body) rest) ''</DESCRIPT>'' then body
            else ExtractDescription cs)
      else ExtractDescription cs)"

text \<open>
  A \<open>map[string]string\<close> is held as the list of its entries, one for each key;
  \<open>map_put\<close> is the assignment \<open>m[k] = v\<close>.
\<close>

fun map_put :: "string \<Rightarrow> string \<Rightarrow> (string \<times> string) list \<Rightarrow> (string \<times> string) list" where
  "map_put k v [] = [(k, v)]"
| "map_put k v ((k', v') # m) = (if k' = k then (k, v) # m else (k', v') # map_put k v m)"

record DeploymentObject =
  obj_Type :: string
  obj_Name :: string
  obj_Description :: string
  MainSource :: string
  Includes :: "(string \<times> string) list"
  XMLMetadata :: string

record DeploymentPlan =
  Dependency :: string
  Package :: string
  TotalFiles :: nat
  TotalObjects :: nat
  Objects :: "DeploymentObject list"

fun addFiles :: "DeploymentObject \<Rightarrow> ABAPFile list \<Rightarrow> DeploymentObject" where
  "addFiles obj [] = obj"
| "addFiles obj (f # fs) =
     addFiles
       (if IsXML f
        then obj\<lparr>XMLMetadata := Content f, obj_Description := ExtractDescription (Content f)\<rparr>
        else if IncludeType f = [] then obj\<lparr>MainSource := Content f\<rparr>
        else obj\<lparr>Includes := map_put (IncludeType f) (Content f) (Includes obj)\<rparr>)
       fs"

text \<open>The loop over the sorted files; \<open>added\<close> holds the keys already seen.\<close>

fun planObjects :: "ABAPFile list \<Rightarrow> ABAPFile list \<Rightarrow> string list \<Rightarrow> DeploymentObject list" where
  "planObjects sortedFiles [] added = []"
| "planObjects sortedFiles (f # fs) added =
     (if objectKey f \<in> set added then planObjects sortedFiles fs added
      else addFiles
             \<lparr>obj_Type = ObjectType f, obj_Name = ObjectName f, obj_Description = [],
              MainSource = [], Includes = [], XMLMetadata = []\<rparr>
             (groupOf sortedFiles (objectKey f))
           # planObjects sortedFiles fs (objectKey f # added))"

definition CreateDeploymentPlan :: "string \<Rightarrow> string \<Rightarrow> ABAPFile list \<Rightarrow> DeploymentPlan" where
  "CreateDeploymentPlan depName packageName files =
     (let sortedFiles = DeploymentOrder files in
      \<lparr>Dependency = depName, Package = packageName, TotalFiles = length files,
       TotalObjects = length (groupKeys sortedFiles),
       Objects = planObjects sortedFiles sortedFiles []\<rparr>)"

section \<open>Deployment handler\<close>

text \<open>
  The handler writes its report with \<open>fmt.Fprintf\<close> and \<open>WriteString\<close> into a string
  builder.  The report is modelled as the list of these writes, each with its format string
  and its arguments, not rendered; an argument is a string, a number or the result of an
  inner \<open>fmt.Sprintf\<close>.  The include types of an object are joined in the iteration order
  of a Go map, which is not specified: the argument is their set, with the separator.
\<close>

datatype arg = S string | N nat | Sprintf string "arg list" | JoinedKeys "string set" string

datatype line = Printf string "arg list" | WriteString string

record CallToolResult =
  res_Content :: "line list"
  IsError :: bool

definition NewToolResultText :: "line list \<Rightarrow> CallToolResult" where
  "NewToolResultText message = \<lparr>res_Content = message, IsError = False\<rparr>"

definition newToolResultError :: "line \<Rightarrow> CallToolResult" where
  "newToolResultError message = (NewToolResultText [message])\<lparr>IsError := True\<rparr>"

text \<open>The arguments of a tool call: a JSON object, read with type assertions.\<close>

datatype argValue = StringArg string | BoolArg bool | OtherArg

type_synonym CallToolRequest = "string \<rightharpoonup> argValue"

definition stringArgument :: "CallToolRequest \<Rightarrow> string \<Rightarrow> string option" where
  "stringArgument req key =
     (case req key of Some (StringArg s) \<Rightarrow> Some s | _ \<Rightarrow> None)"

definition argString :: "CallToolRequest \<Rightarrow> string \<Rightarrow> string" where
  "argString req key = (case stringArgument req key of Some s \<Rightarrow> s | None \<Rightarrow> [])"

definition boolArgument :: "CallToolRequest \<Rightarrow> string \<Rightarrow> bool option" where
  "boolArgument req key =
     (case req key of Some (BoolArg b) \<Rightarrow> Some b | _ \<Rightarrow> None)"

text \<open>
  \<open>objectTypeMapping\<close>; every URL pattern is a prefix followed by \<open>%s\<close>, and the prefix is
  what is stored here.
\<close>

definition objectTypeMapping :: "(string \<times> CreatableObjectType \<times> string) list" where
  "objectTypeMapping =
     [(''PROG'', ObjectTypeProgram, ''/sap/bc/adt/programs/programs/''),
      (''CLAS'', ObjectTypeClass, ''/sap/bc/adt/oo/classes/''),
      (''INTF'', ObjectTypeInterface, ''/sap/bc/adt/oo/interfaces/''),
      (''DDLS'', ObjectTypeDDLS, ''/sap/bc/adt/ddic/ddl/sources/''),
      (''BDEF'', ObjectTypeBDEF, ''/sap/bc/adt/bo/behaviordefinitions/''),
      (''SRVD'', ObjectTypeSRVD, ''/sap/bc/adt/ddic/srvd/sources/'')]"

text \<open>
  \<open>url.PathEscape\<close>: letters, digits and \<open>-_.~$&+:=@\<close> are kept, every other byte is
  written as \<open>%\<close> and two upper-case hexadecimal digits.
\<close>

definition isAlnum :: "char \<Rightarrow> bool" where
  "isAlnum c =
     (let n = (of_char c :: nat) in
      (48 \<le> n \<and> n \<le> 57) \<or> (65 \<le> n \<and> n \<le> 90) \<or> (97 \<le> n \<and> n \<le> 122))"

definition escapeByte :: "char \<Rightarrow> string" where
  "escapeByte c =
     (if isAlnum c \<or> c \<in> set ''-_.~$&+:=@'' then [c]
      else [CHR ''%'', ''0123456789ABCDEF'' ! (of_char c div 16),
            ''0123456789ABCDEF'' ! (of_char c mod 16)])"

definition PathEscape :: "string \<Rightarrow> string" where
  "PathEscape s = concat (map escapeByte s)"

definition alreadyExists :: "error \<Rightarrow> bool" where
  "alreadyExists err = (Contains err ''AlreadyExists'' \<or> Contains err ''already exist'')"

text \<open>The UTF-8 bytes of the marks that the report uses.\<close>

definition arrow :: string where "arrow = [CHR 0xE2, CHR 0x86, CHR 0x92]"
definition check_mark :: string where "check_mark = [CHR 0xE2, CHR 0x9C, CHR 0x93]"
definition skip_mark :: string where "skip_mark = [CHR 0xE2, CHR 0x8A, CHR 0x98]"
definition bullet :: string where "bullet = [CHR 0xE2, CHR 0x80, CHR 0xA2]"

text \<open>The filters of the handler: by type, and by name with the stars of the pattern removed.\<close>

definition selected :: "string \<Rightarrow> string \<Rightarrow> DeploymentObject \<Rightarrow> bool" where
  "selected typeFilter nameFilter obj =
     (\<not> (typeFilter \<noteq> [] \<and> obj_Type obj \<noteq> typeFilter) \<and>
      \<not> (nameFilter \<noteq> [] \<and> \<not> Contains (obj_Name obj) (ReplaceAll nameFilter ''*'' [])))"

definition mapped :: "DeploymentObject \<Rightarrow> bool" where
  "mapped obj = (map_of objectTypeMapping (obj_Type obj) \<noteq> None)"

definition deployableLine :: "DeploymentObject \<Rightarrow> line" where
  "deployableLine obj =
     Printf (''  '' @ check_mark @ '' %-6s %-40s%s\<newline>'')
       [S (obj_Type obj), S (obj_Name obj),
        if length (Includes obj) > 0
        then Sprintf '' [+%s]'' [JoinedKeys (set (map fst (Includes obj))) '','']
        else S []]"

definition skippedLine :: "DeploymentObject \<Rightarrow> line" where
  "skippedLine obj =
     Printf (''  '' @ skip_mark @ '' %-6s %s\<newline>'') [S (obj_Type obj), S (obj_Name obj)]"

definition planLines :: "DeploymentObject list \<Rightarrow> DeploymentObject list \<Rightarrow> line list" where
  "planLines deployable skipped =
     [Printf ''Deployment Plan (%d deployable, %d skipped):\<newline>''
        [N (length deployable), N (length skipped)],
      WriteString (replicate 60 CHR ''-'' @ ''\<newline>'')]
     @ map deployableLine deployable
     @ (if length skipped > 0
        then WriteString ''\<newline>  Skipped (requires ZADT_VSP):\<newline>'' # map skippedLine skipped
        else [])
     @ [WriteString (replicate 60 CHR ''-'' @ ''\<newline>\<newline>'')]"

subsection \<open>Phase 1: create the objects\<close>

record ('s, 't) phase1 =
  p1_sb :: "line list"
  createSuccess :: nat
  createSkipped :: nat
  createFailed :: nat
  p1_world :: "('s, 't) world"

text \<open>The body of the loop for the object at index \<open>i\<close>, and the loop.\<close>

definition createObject_step ::
  "('s, 't) Client \<Rightarrow> string \<Rightarrow> nat \<Rightarrow> nat \<Rightarrow> DeploymentObject \<Rightarrow> ('s, 't) phase1 \<Rightarrow>
   ('s, 't) phase1" where
  "createObject_step c packageName n i obj st =
     (case map_of objectTypeMapping (obj_Type obj) of
        None \<Rightarrow> st
      | Some (creatableType, urlPattern) \<Rightarrow>
          (let desc = (if obj_Description obj = [] then obj_Name obj else obj_Description obj);
               sb = p1_sb st @
                 [Printf ''  [%d/%d] Create %s %s... ''
                    [N (i + 1), N n, S (obj_Type obj), S (obj_Name obj)]]
           in case doCreateObject c
                     \<lparr>opt_ObjectType = creatableType, opt_Name = obj_Name obj,
                      opt_Description = desc, opt_PackageName = packageName,
                      opt_Transport = [], opt_Responsible = [], opt_ParentName = []\<rparr>
                     (p1_world st) of
                (Some err, w) \<Rightarrow>
                  if alreadyExists err
                  then st\<lparr>p1_sb := sb @ [Printf ''exists\<newline>'' []],
                          createSkipped := createSkipped st + 1, p1_world := w\<rparr>
                  else st\<lparr>p1_sb := sb @ [Printf ''FAIL: %v\<newline>'' [S err]],
                          createFailed := createFailed st + 1, p1_world := w\<rparr>
              | (None, w) \<Rightarrow>
                  st\<lparr>p1_sb := sb @ [Printf ''ok\<newline>'' []],
                     createSuccess := createSuccess st + 1, p1_world := w\<rparr>))"

fun createObjects ::
  "('s, 't) Client \<Rightarrow> string \<Rightarrow> nat \<Rightarrow> nat \<Rightarrow> DeploymentObject list \<Rightarrow> ('s, 't) phase1 \<Rightarrow>
   ('s, 't) phase1" where
  "createObjects c packageName n i [] st = st"
| "createObjects c packageName n i (obj # objs) st =
     createObjects c packageName n (i + 1) objs (createObject_step c packageName n i obj st)"

subsection \<open>Phase 2: upload the sources\<close>

record ('s, 't) phase2 =
  p2_sb :: "line list"
  uploadSuccess :: nat
  uploadFailed :: nat
  uploadFailures :: "arg list"
  p2_world :: "('s, 't) world"

text \<open>The body of the loop for the object at index \<open>i\<close>, and the loop.\<close>

definition uploadSource_step ::
  "('s, 't) Client \<Rightarrow> nat \<Rightarrow> nat \<Rightarrow> DeploymentObject \<Rightarrow> ('s, 't) phase2 \<Rightarrow> ('s, 't) phase2" where
  "uploadSource_step c n i obj st =
     (case map_of objectTypeMapping (obj_Type obj) of
        None \<Rightarrow> st
      | Some (creatableType, urlPattern) \<Rightarrow>
          (let encodedName = PathEscape (ToLower (obj_Name obj));
               objectURL = urlPattern @ encodedName;
               sourceURL = objectURL @ ''/source/main'';
               sb = p2_sb st @
                 [Printf ''  [%d/%d] Upload %s %s... ''
                    [N (i + 1), N n, S (obj_Type obj), S (obj_Name obj)]]
           in case doLockObject c objectURL ''MODIFY'' (p2_world st) of
                (Inl err, w1) \<Rightarrow>
                  st\<lparr>p2_sb := sb @ [Printf ''LOCK FAIL: %v\<newline>'' [S err]],
                     uploadFailed := uploadFailed st + 1,
                     uploadFailures := uploadFailures st @
                       [Sprintf ''%s %s: lock failed: %v''
                          [S (obj_Type obj), S (obj_Name obj), S err]],
                     p2_world := w1\<rparr>
              | (Inr lockResult, w1) \<Rightarrow>
                  (case doUpdateSource c sourceURL (MainSource obj) (LockHandle lockResult) [] w1 of
                     (Some err, w2) \<Rightarrow>
                       (case doUnlockObject c objectURL (LockHandle lockResult) w2 of
                          (unlockErr, w3) \<Rightarrow>
                            st\<lparr>p2_sb := sb @ [Printf ''UPLOAD FAIL: %v\<newline>'' [S err]],
                               uploadFailed := uploadFailed st + 1,
                               uploadFailures := uploadFailures st @
                                 [Sprintf ''%s %s: upload failed: %v''
                                    [S (obj_Type obj), S (obj_Name obj), S err]],
                               p2_world := w3\<rparr>)
                   | (None, w2) \<Rightarrow>
                       (case doUnlockObject c objectURL (LockHandle lockResult) w2 of
                          (Some err, w3) \<Rightarrow>
                            st\<lparr>p2_sb := sb @ [Printf ''UNLOCK FAIL: %v\<newline>'' [S err],
                                              Printf ''ok\<newline>'' []],
                               uploadSuccess := uploadSuccess st + 1, p2_world := w3\<rparr>
                        | (None, w3) \<Rightarrow>
                            st\<lparr>p2_sb := sb @ [Printf ''ok\<newline>'' []],
                               uploadSuccess := uploadSuccess st + 1, p2_world := w3\<rparr>))))"

fun uploadSources ::
  "('s, 't) Client \<Rightarrow> nat \<Rightarrow> nat \<Rightarrow> DeploymentObject list \<Rightarrow> ('s, 't) phase2 \<Rightarrow> ('s, 't) phase2" where
  "uploadSources c n i [] st = st"
| "uploadSources c n i (obj # objs) st =
     uploadSources c n (i + 1) objs (uploadSource_step c n i obj st)"

subsection \<open>The three phases and the summary\<close>

definition passLines :: "ActivationPass list \<Rightarrow> line list" where
  "passLines passes =
     map (\<lambda>(i, p). Printf ''  Pass %d: %d activated, %d failed\<newline>''
                      [N (i + 1), N (length (Activated p)), N (length (Failed p))])
       (zip [0..<length passes] passes)"

definition deployPhases ::
  "('s, 't) Client \<Rightarrow> string \<Rightarrow> string \<Rightarrow> DeploymentObject list \<Rightarrow> DeploymentObject list \<Rightarrow>
   line list \<Rightarrow> ('s, 't) world \<Rightarrow> CallToolResult \<times> ('s, 't) world" where
  "deployPhases c source packageName deployable skipped sb0 w0 =
     (let p1 = createObjects c packageName (length deployable) 0 deployable
                 \<lparr>p1_sb = sb0 @ [WriteString ''Phase 1: Creating objects...\<newline>''],
                  createSuccess = 0, createSkipped = 0, createFailed = 0, p1_world = w0\<rparr>;
          sb1 = p1_sb p1 @
                  [Printf ''\<newline>  Phase 1 summary: %d created, %d existed, %d failed\<newline>\<newline>''
                     [N (createSuccess p1), N (createSkipped p1), N (createFailed p1)]];
          p2 = uploadSources c (length deployable) 0 deployable
                 \<lparr>p2_sb = sb1 @ [WriteString ''Phase 2: Uploading source code...\<newline>''],
                  uploadSuccess = 0, uploadFailed = 0, uploadFailures = [],
                  p2_world = p1_world p1\<rparr>;
          sb2 = p2_sb p2 @
                  [Printf ''\<newline>  Phase 2 summary: %d uploaded, %d failed\<newline>\<newline>''
                     [N (uploadSuccess p2), N (uploadFailed p2)],
                   WriteString ''Phase 3: Iterative activation...\<newline>''];
          (iterR, w3) = doActivatePackageIterative c packageName 5 (p2_world p2);
          sb3 = sb2 @
            (case iterR of
               Inl err \<Rightarrow> [Printf ''  Activation error: %v\<newline>'' [S err]]
             | Inr iterResult \<Rightarrow>
                 passLines (Passes iterResult)
                 @ [Printf ''  Total: %d activated across %d pass(es)\<newline>''
                      [N (TotalActivated iterResult), N (Iterations iterResult)],
                    if StillInactive iterResult = 0
                    then WriteString
                           (''  All objects active '' @ [CHR 0xE2, CHR 0x80, CHR 0x94]
                            @ '' deployment verified.\<newline>'')
                    else Printf ''  WARNING: %d object(s) still inactive in %s\<newline>''
                           [N (StillInactive iterResult), S packageName]]);
          sb4 = sb3 @
            [WriteString (''\<newline>'' @ replicate 60 CHR ''='' @ ''\<newline>''),
             Printf ''Deployment complete:\<newline>'' [],
             Printf ''  Phase 1 (Create):   %d ok, %d existed, %d failed\<newline>''
               [N (createSuccess p1), N (createSkipped p1), N (createFailed p1)],
             Printf ''  Phase 2 (Upload):   %d ok, %d failed\<newline>''
               [N (uploadSuccess p2), N (uploadFailed p2)]]
            @ (case iterR of
                 Inl err \<Rightarrow> []
               | Inr iterResult \<Rightarrow>
                   [Printf ''  Phase 3 (Activate): %s\<newline>'' [S (Summary iterResult)]])
            @ (if length (uploadFailures p2) > 0
               then WriteString ''\<newline>Upload failures:\<newline>'' #
                    map (\<lambda>f. Printf (''  '' @ bullet @ '' %s\<newline>'') [f]) (uploadFailures p2)
               else [])
            @ (if length skipped > 0
               then [Printf ''\<newline>%d objects skipped (not supported via ADT native).\<newline>''
                       [N (length skipped)],
                     WriteString ''Install ZADT_VSP to enable full object type support.\<newline>'']
               else [])
      in (NewToolResultText sb4, w3))"

subsection \<open>The handler\<close>

text \<open>
  What the handler does once the plan is not empty and the run is not a dry run: the
  package, the three phases and the summary.
\<close>

definition deploy ::
  "('s, 't) Client \<Rightarrow> string \<Rightarrow> string \<Rightarrow> DeploymentObject list \<Rightarrow> DeploymentObject list \<Rightarrow>
   line list \<Rightarrow> ('s, 't) world \<Rightarrow> CallToolResult \<times> ('s, 't) world" where
  "deploy c source packageName deployable skipped sb0 w0 =
     (let sb1 = sb0 @ [Printf ''Checking package %s...\<newline>'' [S packageName]];
          (pkgR, w1) = doGetPackage c packageName w0;
          missing = (case pkgR of Inl pkgErr \<Rightarrow> True | Inr pkg \<Rightarrow> pkg_URI pkg = []);
          sb2 = (if missing then sb1 @ [Printf ''Creating package %s...\<newline>'' [S packageName]]
                 else sb1 @ [Printf (''  '' @ check_mark @ '' Package exists\<newline>'') []]);
          (createR, w2) =
            (if missing
             then doCreateObject c
                    \<lparr>opt_ObjectType = ObjectTypePackage, opt_Name = packageName,
                     opt_Description = ''Deployed from '' @ source, opt_PackageName = [],
                     opt_Transport = [], opt_Responsible = [], opt_ParentName = []\<rparr> w1
             else (None, w1))
      in case createR of
           Some err \<Rightarrow>
             if \<not> alreadyExists err
             then (newToolResultError (Printf ''Failed to create package: %v'' [S err]), w2)
             else deployPhases c source packageName deployable skipped
                    (sb2 @ [Printf (''  '' @ check_mark @ '' Package already exists\<newline>'') [],
                            WriteString ''\<newline>'']) w2
         | None \<Rightarrow>
             deployPhases c source packageName deployable skipped
               (sb2 @ (if missing
                       then [Printf (''  '' @ check_mark @ '' Package created\<newline>'') []]
                       else [])
                    @ [WriteString ''\<newline>'']) w2)"

text \<open>
  The handler.  The archives are embedded at build time, and \<open>getZIP\<close> is the lookup of
  an archive by its name: \<open>handleDeployZip_with getZIP\<close> is the body of the handler for any
  such lookup, and \<open>handleDeployZip\<close> is the handler of this source tree, where the lookup
  is \<open>GetDependencyZIP\<close>.  The returned error is nil on every path.
\<close>

definition handleDeployZip_with ::
  "(string \<Rightarrow> string option) \<Rightarrow> (string \<Rightarrow> error + zipEntry list) \<Rightarrow> ('s, 't) Client \<Rightarrow>
   CallToolRequest \<Rightarrow> ('s, 't) world \<Rightarrow> CallToolResult \<times> ('s, 't) world" where
  "handleDeployZip_with getZIP zipReader c req w =
     (let source = argString req ''source'' in
      if source = [] then
        (newToolResultError
           (Printf ''source is required (e.g., 'abapgit-standalone', 'abapgit-full')'' []), w)
      else
      let packageName0 = argString req ''package'' in
      if packageName0 = [] then
        (newToolResultError (Printf ''package is required (e.g., '$ZGIT')'' []), w)
      else
      let packageName = ToUpper packageName0;
          dryRun = (case boolArgument req ''dry_run'' of Some dr \<Rightarrow> dr | None \<Rightarrow> False);
          typeFilter = ToUpper (argString req ''type_filter'');
          nameFilter = ToUpper (argString req ''name_filter'')
      in case getZIP source of
        None \<Rightarrow>
          (newToolResultError
             (Printf ''Source '%s' not found. Available: %s''
                [S source,
                 S (Join (map dep_Name (filter Available GetAvailableDependencies)) '', '')]),
           w)
      | Some zipData \<Rightarrow>
          (let sb0 =
                 [Printf (''DeployZip: %s '' @ arrow @ '' %s\<newline>'') [S source, S packageName],
                  WriteString (replicate 60 CHR ''='' @ ''\<newline>\<newline>''),
                  Printf ''Source: %s (%d bytes)\<newline>'' [S source, N (length zipData)],
                  Printf ''Target: %s\<newline>\<newline>'' [S packageName]]
           in case UnzipInMemory zipReader zipData of
                Inl err \<Rightarrow> (newToolResultError (Printf ''Failed to parse ZIP: %v'' [S err]), w)
              | Inr files \<Rightarrow>
                  (let plan = CreateDeploymentPlan source packageName files;
                       chosen = filter (selected typeFilter nameFilter) (Objects plan);
                       deployable = filter mapped chosen;
                       skipped = filter (\<lambda>obj. \<not> mapped obj) chosen;
                       sb1 = sb0 @
                         [Printf ''Found %d objects in %d files\<newline>\<newline>''
                            [N (TotalObjects plan), N (TotalFiles plan)]]
                         @ planLines deployable skipped
                   in if dryRun then
                        (NewToolResultText
                           (sb1 @ [WriteString ''Dry run - no changes made.\<newline>'']), w)
                      else if length deployable = 0 then
                        (NewToolResultText (sb1 @ [WriteString ''Nothing to deploy.\<newline>'']), w)
                      else deploy c source packageName deployable skipped sb1 w)))"

definition handleDeployZip ::
  "(string \<Rightarrow> error + zipEntry list) \<Rightarrow> ('s, 't) Client \<Rightarrow> CallToolRequest \<Rightarrow>
   ('s, 't) world \<Rightarrow> CallToolResult \<times> ('s, 't) world" where
  "handleDeployZip = handleDeployZip_with GetDependencyZIP"

subsection \<open>The requests of phase 2\<close>

definition objectURL :: "DeploymentObject \<Rightarrow> string" where
  "objectURL obj =
     (case map_of objectTypeMapping (obj_Type obj) of
        Some (creatableType, urlPattern) \<Rightarrow> urlPattern @ PathEscape (ToLower (obj_Name obj))
      | None \<Rightarrow> [])"







subsection \<open>The plan of a request\<close>

text \<open>The objects that the filters of a request keep, among those of the plan.\<close>

definition chosenObjects :: "CallToolRequest \<Rightarrow> ABAPFile list \<Rightarrow> DeploymentObject list" where
  "chosenObjects req files =
     filter (selected (ToUpper (argString req ''type_filter''))
                      (ToUpper (argString req ''name_filter'')))
       (Objects (CreateDeploymentPlan (argString req ''source'')
                   (ToUpper (argString req ''package'')) files))"

text \<open>
  A request for a dry run of the deployment of \<open>abapgit-standalone\<close>, and an archive of
  three files with its lookup and its reader.
\<close>

definition dry_run_request :: CallToolRequest where
  "dry_run_request =
     [''source'' \<mapsto> StringArg ''abapgit-standalone'', ''package'' \<mapsto> StringArg ''$zgit'',
      ''dry_run'' \<mapsto> BoolArg True]"

definition sample_getZIP :: "string \<Rightarrow> string option" where
  "sample_getZIP source = (if source = ''abapgit-standalone'' then Some ''PK'' else None)"

definition sample_zipReader :: "string \<Rightarrow> error + zipEntry list" where
  "sample_zipReader zipData =
     (if zipData = ''PK''
      then Inr [\<lparr>ze_Name = ''src/'', ze_IsDir = True, ze_Data = Contents []\<rparr>,
                \<lparr>ze_Name = ''src/zcl_b.clas.abap'', ze_IsDir = False,
                 ze_Data = Contents ''CLASS zcl_b DEFINITION.''\<rparr>,
                \<lparr>ze_Name = ''src/zcl_b.clas.xml'', ze_IsDir = False,
                 ze_Data = Contents ''<DESCRIPT>Class B</DESCRIPT>''\<rparr>,
                \<lparr>ze_Name = ''src/ztab.tabl.xml'', ze_IsDir = False,
                 ze_Data = Contents ''<DESCRIPT>Table</DESCRIPT>''\<rparr>]
      else Inl ''zip: not a valid zip file'')"

section \<open>Properties of the safety gate\<close>


lemma ContainsRune_set: "ContainsRune s r = (r \<in> set s)"
  by (induction s) auto










section \<open>The encoder agrees with RFC 4648\<close>

lemma push_bit_and_low_nat:
  fixes a b :: nat
  assumes "b < 2 ^ k"
  shows "push_bit k a AND b = 0"
proof (rule bit_eqI)
  fix n
  show "bit (push_bit k a AND b) n = bit (0::nat) n"
  proof (cases "n < k")
    case True
    then show ?thesis by (simp add: bit_simps)
  next
    case False
    then have "b < 2 ^ n"
      using assms by (meson leI less_le_trans one_le_numeral power_increasing)
    then have "\<not> bit b n"
      by (simp add: bit_iff_odd)
    then show ?thesis by (simp add: bit_simps)
  qed
qed

lemma or_add_nat:
  fixes a b :: nat
  assumes "b < 2 ^ k"
  shows "push_bit k a OR b = a * 2 ^ k + b"
  using push_bit_and_low_nat [OF assms, of a]
  by (simp add: disjunctive_add_eq_or [symmetric] push_bit_eq_mult)

lemma len32: "LENGTH(32) = 32"
  by simp

lemma unat_byte_lt: "unat (x :: byte) < 256"
  using unsigned_less [of x] by simp

lemma unat_ucast_byte: "unat (ucast (x :: byte) :: 32 word) = unat x"
  by (simp add: unsigned_ucast_eq take_bit_nat_eq_self unat_byte_lt [THEN less_trans])

lemma unat_push_byte:
  assumes k: "k \<le> 24"
  shows "unat (push_bit k (ucast (x :: byte)) :: 32 word) = unat x * 2 ^ k"
proof -
  have "unat x * 2 ^ k < 2 ^ 8 * 2 ^ k"
    using unat_byte_lt [of x] by simp
  also have "\<dots> = 2 ^ (8 + k)"
    by (simp add: power_add)
  also have "\<dots> \<le> (2::nat) ^ 32"
    using k by (intro power_increasing) auto
  finally have lt: "unat x * 2 ^ k < 2 ^ 32" .
  have "unat (push_bit k (ucast x) :: 32 word)
      = take_bit 32 (push_bit k (unat (ucast x :: 32 word)))"
    by (simp only: unsigned_push_bit_eq len32)
  also have "\<dots> = take_bit 32 (unat x * 2 ^ k)"
    by (simp only: unat_ucast_byte push_bit_eq_mult)
  also have "\<dots> = unat x * 2 ^ k"
    using lt by (simp only: take_bit_nat_eq_self)
  finally show ?thesis .
qed

lemma unat_pack3:
  fixes x y z :: byte
  shows "unat ((push_bit 16 (ucast x) OR push_bit 8 (ucast y)) OR ucast z :: 32 word)
       = unat x * 2 ^ 16 + unat y * 2 ^ 8 + unat z"
proof -
  have z: "unat z < 2 ^ 8"
    using unat_byte_lt [of z] by simp
  have yz: "unat y * 2 ^ 8 + unat z < 2 ^ 16"
    using unat_byte_lt [of y] unat_byte_lt [of z] by simp
  have "unat ((push_bit 16 (ucast x) OR push_bit 8 (ucast y)) OR ucast z :: 32 word)
      = unat x * 2 ^ 16 OR (unat y * 2 ^ 8 OR unat z)"
    by (simp add: unsigned_or_eq unat_push_byte unat_ucast_byte or.assoc)
  also have "\<dots> = unat x * 2 ^ 16 + (unat y * 2 ^ 8 + unat z)"
    using or_add_nat [OF z, of "unat y"] or_add_nat [OF yz, of "unat x"]
    by (simp only: push_bit_eq_mult)
  finally show ?thesis by simp
qed

lemma unat_pack2:
  fixes x y :: byte
  shows "unat (push_bit 16 (ucast x) OR push_bit 8 (ucast y) :: 32 word)
       = unat x * 2 ^ 16 + unat y * 2 ^ 8"
  using unat_pack3 [of x y 0] by simp

lemma and_63_nat: "(n::nat) AND 63 = n mod 64"
proof -
  have m: "mask 6 = (63::nat)"
    by (simp add: mask_eq_exp_minus_1)
  have "n AND mask 6 = n mod 2 ^ 6"
    by (simp only: take_bit_eq_mask [symmetric] take_bit_eq_mod)
  then show ?thesis unfolding m by simp
qed

lemma unat_sextet:
  fixes b :: "32 word"
  shows "unat (drop_bit k b AND 0x3F) = unat b div 2 ^ k mod 64"
proof -
  have "unat (drop_bit k b AND 0x3F) = unat (drop_bit k b) AND unat (0x3F :: 32 word)"
    by (simp only: unsigned_and_eq)
  also have "\<dots> = drop_bit k (unat b) AND 63"
    by (simp add: unat_drop_bit_eq)
  also have "\<dots> = unat b div 2 ^ k mod 64"
    by (simp only: and_63_nat drop_bit_eq_div)
  finally show ?thesis .
qed

lemma unat_sextet0:
  fixes b :: "32 word"
  shows "unat (b AND 0x3F) = unat b mod 64"
  using unat_sextet [of 0 b] by simp

lemma base64Chars_table: "list_all (\<lambda>v. base64Chars ! v = rfc4648_alphabet v) [0..<64]"
  by code_simp

lemma base64Chars_alphabet: "v < 64 \<Longrightarrow> base64Chars ! v = rfc4648_alphabet v"
  using base64Chars_table by (simp add: list_all_iff)

lemma chunk3:
  fixes x y z :: byte
  assumes "b = ((push_bit 16 (ucast x) OR push_bit 8 (ucast y)) OR ucast z :: 32 word)"
  shows "[base64Chars ! unat (drop_bit 18 b AND 0x3F),
          base64Chars ! unat (drop_bit 12 b AND 0x3F),
          base64Chars ! unat (drop_bit 6 b AND 0x3F),
          base64Chars ! unat (b AND 0x3F)] @ rfc4648_encode rest
       = rfc4648_encode (x # y # z # rest)"
proof -
  define n where "n = unat x * 2 ^ 16 + unat y * 2 ^ 8 + unat z"
  have b: "unat b = n"
    unfolding assms n_def by (rule unat_pack3)
  have "n < 2 ^ 24"
    using unat_byte_lt [of x] unat_byte_lt [of y] unat_byte_lt [of z] by (simp add: n_def)
  then have top: "n div 2 ^ 18 mod 64 = n div 64 ^ 3"
    by simp
  have mid: "n div 2 ^ 12 mod 64 = n div 64 ^ 2 mod 64" "n div 2 ^ 6 mod 64 = n div 64 mod 64"
    by simp_all
  have s: "unat (drop_bit 18 b AND 0x3F) = n div 64 ^ 3"
    "unat (drop_bit 12 b AND 0x3F) = n div 64 ^ 2 mod 64"
    "unat (drop_bit 6 b AND 0x3F) = n div 64 mod 64"
    "unat (b AND 0x3F) = n mod 64"
    by (simp only: unat_sextet [of 18 b] b top, simp only: unat_sextet [of 12 b] b mid,
        simp only: unat_sextet [of 6 b] b mid, simp only: unat_sextet0 [of b] b)
  have r: "n div 64 ^ 3 < 64"
    using \<open>n < 2 ^ 24\<close> by simp
  have "rfc4648_encode (x # y # z # rest)
      = [rfc4648_alphabet (n div 64 ^ 3), rfc4648_alphabet (n div 64 ^ 2 mod 64),
         rfc4648_alphabet (n div 64 mod 64), rfc4648_alphabet (n mod 64)] @ rfc4648_encode rest"
    by (simp only: rfc4648_encode.simps Let_def n_def)
  then show ?thesis
    unfolding s by (simp only: base64Chars_alphabet r mod_less_divisor zero_less_numeral)
qed

lemma chunk2:
  fixes x y :: byte
  assumes "b = (push_bit 16 (ucast x) OR push_bit 8 (ucast y) :: 32 word)"
  shows "[base64Chars ! unat (drop_bit 18 b AND 0x3F),
          base64Chars ! unat (drop_bit 12 b AND 0x3F),
          base64Chars ! unat (drop_bit 6 b AND 0x3F), CHR ''='']
       = rfc4648_encode [x, y]"
proof -
  define m where "m = unat x * 2 ^ 8 + unat y"
  define n where "n = m * 2 ^ 2"
  have b: "unat b = m * 2 ^ 8"
    unfolding assms m_def by (simp add: unat_pack2)
  have lt: "m < 2 ^ 16"
    using unat_byte_lt [of x] unat_byte_lt [of y] by (simp add: m_def)
  have top: "m * 2 ^ 8 div 2 ^ 18 mod 64 = n div 64 ^ 2"
    using lt unfolding n_def by simp
  have mid: "m * 2 ^ 8 div 2 ^ 12 mod 64 = n div 64 mod 64"
    "m * 2 ^ 8 div 2 ^ 6 mod 64 = n mod 64"
    unfolding n_def by (simp_all add: mult.commute)
  have s: "unat (drop_bit 18 b AND 0x3F) = n div 64 ^ 2"
    "unat (drop_bit 12 b AND 0x3F) = n div 64 mod 64"
    "unat (drop_bit 6 b AND 0x3F) = n mod 64"
    by (simp only: unat_sextet [of 18 b] b top, simp only: unat_sextet [of 12 b] b mid,
        simp only: unat_sextet [of 6 b] b mid)
  have r: "n div 64 ^ 2 < 64"
    using lt unfolding n_def by simp
  have "rfc4648_encode [x, y]
      = [rfc4648_alphabet (n div 64 ^ 2), rfc4648_alphabet (n div 64 mod 64),
         rfc4648_alphabet (n mod 64), CHR ''='']"
    by (simp only: rfc4648_encode.simps Let_def n_def m_def)
  then show ?thesis
    unfolding s by (simp only: base64Chars_alphabet r mod_less_divisor zero_less_numeral)
qed

lemma chunk1:
  fixes x :: byte
  assumes "b = (push_bit 16 (ucast x) :: 32 word)"
  shows "[base64Chars ! unat (drop_bit 18 b AND 0x3F),
          base64Chars ! unat (drop_bit 12 b AND 0x3F), CHR ''='', CHR ''='']
       = rfc4648_encode [x]"
proof -
  define n where "n = unat x * 2 ^ 4"
  have b: "unat b = unat x * 2 ^ 16"
    unfolding assms by (simp add: unat_push_byte)
  have lt: "unat x < 2 ^ 8"
    using unat_byte_lt [of x] by simp
  have top: "unat x * 2 ^ 16 div 2 ^ 18 mod 64 = n div 64"
    using lt unfolding n_def by simp
  have mid: "unat x * 2 ^ 16 div 2 ^ 12 mod 64 = n mod 64"
    unfolding n_def by (simp add: mult.commute)
  have s: "unat (drop_bit 18 b AND 0x3F) = n div 64"
    "unat (drop_bit 12 b AND 0x3F) = n mod 64"
    by (simp only: unat_sextet [of 18 b] b top, simp only: unat_sextet [of 12 b] b mid)
  have r: "n div 64 < 64"
    using lt unfolding n_def by simp
  have "rfc4648_encode [x] = [rfc4648_alphabet (n div 64), rfc4648_alphabet (n mod 64), CHR ''='', CHR ''='']"
    by (simp only: rfc4648_encode.simps Let_def n_def)
  then show ?thesis
    unfolding s by (simp only: base64Chars_alphabet r mod_less_divisor zero_less_numeral)
qed

lemma drop_three:
  assumes "length data - i \<ge> 3"
  shows "drop i data = data ! i # data ! (i + 1) # data ! (i + 2) # drop (i + 3) data"
proof -
  have "i < length data" "Suc i < length data" "Suc (Suc i) < length data"
    using assms by linarith+
  then show ?thesis
    by (simp add: Cons_nth_drop_Suc numeral_3_eq_3)
qed

lemma drop_two:
  assumes "length data - i = 2"
  shows "drop i data = [data ! i, data ! (i + 1)]" "drop (i + 3) data = []"
proof -
  have "i < length data" "Suc i < length data" "length data \<le> Suc (Suc i)"
    using assms by linarith+
  then show "drop i data = [data ! i, data ! (i + 1)]"
    by (simp add: Cons_nth_drop_Suc [symmetric])
  show "drop (i + 3) data = []"
    using assms by simp
qed

lemma drop_one:
  assumes "length data - i = 1"
  shows "drop i data = [data ! i]" "drop (i + 3) data = []"
proof -
  have "i < length data" "length data \<le> Suc i"
    using assms by linarith+
  then show "drop i data = [data ! i]"
    by (simp add: Cons_nth_drop_Suc [symmetric])
  show "drop (i + 3) data = []"
    using assms by simp
qed

lemma loop_three:
  assumes "i < length data" "length data - i \<ge> 3"
  shows "base64Encode_loop data i result =
    (let b = ((push_bit 16 (ucast (data ! i)) OR push_bit 8 (ucast (data ! (i + 1))))
                      OR ucast (data ! (i + 2)) :: 32 word)
     in base64Encode_loop data (i + 3)
                 (result @ [base64Chars ! unat (drop_bit 18 b AND 0x3F),
                            base64Chars ! unat (drop_bit 12 b AND 0x3F),
                            base64Chars ! unat (drop_bit 6 b AND 0x3F),
                            base64Chars ! unat (b AND 0x3F)]))"
  using assms by (subst base64Encode_loop.simps) (simp add: Let_def)

lemma loop_two:
  assumes "i < length data" "length data - i = 2"
  shows "base64Encode_loop data i result =
    (let b = (push_bit 16 (ucast (data ! i)) OR push_bit 8 (ucast (data ! (i + 1))) :: 32 word)
     in base64Encode_loop data (i + 3)
                 (result @ [base64Chars ! unat (drop_bit 18 b AND 0x3F),
                            base64Chars ! unat (drop_bit 12 b AND 0x3F),
                            base64Chars ! unat (drop_bit 6 b AND 0x3F),
                            CHR ''='']))"
  using assms by (subst base64Encode_loop.simps) (simp add: Let_def)

lemma loop_one:
  assumes "i < length data" "length data - i = 1"
  shows "base64Encode_loop data i result =
    (let b = (push_bit 16 (ucast (data ! i)) :: 32 word)
     in base64Encode_loop data (i + 3)
                 (result @ [base64Chars ! unat (drop_bit 18 b AND 0x3F),
                            base64Chars ! unat (drop_bit 12 b AND 0x3F),
                            CHR ''='', CHR ''='']))"
  using assms by (subst base64Encode_loop.simps) (simp add: Let_def)

lemma base64Encode_loop_rfc4648:
  "base64Encode_loop data i result = result @ rfc4648_encode (drop i data)"
proof (induction data i result rule: base64Encode_loop.induct)
  case (1 data i result)
  show ?case
  proof (cases "i < length data")
    case False
    then show ?thesis
      by (subst base64Encode_loop.simps) simp
  next
    case True
    consider (three) "length data - i \<ge> 3" | (two) "length data - i = 2"
      | (one) "length data - i = 1"
      using True by linarith
    then show ?thesis
    proof cases
      case three
      show ?thesis
        by (simp only: loop_three [OF True three] Let_def
            "1.IH"(1) [OF True refl three refl] drop_three [OF three]
            chunk3 [OF refl, symmetric] append_assoc)
    next
      case two
      then have n3: "\<not> length data - i \<ge> 3"
        by simp
      show ?thesis
        by (simp only: loop_two [OF True two] Let_def
            "1.IH"(2) [OF True refl n3 two refl] drop_two [OF two]
            chunk2 [OF refl, symmetric] append_assoc rfc4648_encode.simps append_Nil2)
    next
      case one
      then have n3: "\<not> length data - i \<ge> 3" and n2: "length data - i \<noteq> 2"
        by simp_all
      show ?thesis
        by (simp only: loop_one [OF True one] Let_def
            "1.IH"(3) [OF True refl n3 n2 refl] drop_one [OF one]
            chunk1 [OF refl, symmetric] append_assoc rfc4648_encode.simps append_Nil2)
    qed
  qed
qed

text \<open>
  Claim C8.  On every byte sequence the engine's own encoder returns the padded base64
  encoding of RFC 4648, whatever the length of the input modulo 3.
\<close>

theorem base64Encode_is_rfc4648: "base64Encode data = rfc4648_encode data"
  by (simp add: base64Encode_def base64Encode_loop_rfc4648)

theorem base64Encode_is_rfc4648_witness:
  "base64Encode (bytes_of ''developer:secret'') = ''ZGV2ZWxvcGVyOnNlY3JldA=='' \<and>
   base64Encode (bytes_of ''ab'') = ''YWI='' \<and> base64Encode (bytes_of ''a'') = ''YQ==''"
proof -
  have "rfc4648_encode (bytes_of ''developer:secret'') = ''ZGV2ZWxvcGVyOnNlY3JldA==''"
    "rfc4648_encode (bytes_of ''ab'') = ''YWI=''" "rfc4648_encode (bytes_of ''a'') = ''YQ==''"
    by (simp_all add: rfc4648_alphabet_def char_of_eq_iff bytes_of_def)
  then show ?thesis
    by (simp only: base64Encode_is_rfc4648)
qed

section \<open>Properties of the response parsers\<close>

lemma ContainsAny_set: "ContainsAny s chars = (\<exists>c \<in> set s. c \<in> set chars)"
  by (induction s) (auto simp: ContainsRune_set)






text \<open>
  Claim C9, evaluated on the code: the zero-byte syntax-check response is not parsed to an
  empty list of diagnostics; the parser returns the decoder's end-of-input error.
\<close>

theorem parseSyntaxCheckResults_empty:
  "parseSyntaxCheckResults decode [] = Inl ''parsing syntax check response: EOF''"
  by (simp add: parseSyntaxCheckResults_def xml_Unmarshal_def)

section \<open>Properties of the deployment order\<close>

text \<open>
  Claim C7, evaluated on the code.  The comparison looks at the XML flag before the type
  priority, so every source file is placed before every metadata file: the class source
  precedes the metadata of the interface, although the type INTF has priority over CLAS and
  the metadata of an object belongs after its source, before the next object.
\<close>

theorem DeploymentOrder_sources_before_all_metadata:
  "DeploymentOrder [zif_a_abap, zif_a_xml, zcl_b_abap, zcl_b_xml]
     = [zif_a_abap, zcl_b_abap, zif_a_xml, zcl_b_xml]"
  by (simp add: DeploymentOrder_def SliceStable_def deployment_less_def int_map_lookup_def
      typePriority_def includePriority_def zif_a_abap_def zif_a_xml_def zcl_b_abap_def
      zcl_b_xml_def mkFile_def)

section \<open>Properties of the workflows\<close>

lemmas do_defs = doSyntaxCheck_def doLockObject_def doUpdateSource_def doUnlockObject_def
  doActivate_def doCreateObject_def doCreateTestInclude_def doUpdateClassInclude_def
  doRunUnitTests_def doGetPackage_def doActivatePackageIterative_def

lemma unlocks_of_simps:
  "unlocks_of u h [] = 0"
  "unlocks_of u h (e # es) = (if is_unlock_of u h e then 1 else 0) + unlocks_of u h es"
  "unlocks_of u h (xs @ ys) = unlocks_of u h xs + unlocks_of u h ys"
  by (simp_all add: unlocks_of_def)

lemma no_lock_among:
  "\<not> list_ex is_lock new \<Longrightarrow> EvLockObject u m r \<in> set new \<Longrightarrow> False"
  by (auto simp: list_ex_iff)

lemma no_syntax_check_among:
  "\<not> list_ex is_syntax_check new \<Longrightarrow> EvSyntaxCheck u src r \<in> set new \<Longrightarrow> False"
  by (auto simp: list_ex_iff)

lemma WriteProgram_locked_events:
  assumes "WriteProgram_locked c pn ou su src tr lock result w = (res, w')"
    and "\<not> wp_Success result"
  shows "\<exists>new. trace w' = trace w @ new \<and>
           locked_events_ok ou (LockHandle lock) (wp_Success res) new"
  using assms
  unfolding WriteProgram_locked_def do_defs perform_def locked_events_ok_def
  by (auto simp: unlocks_of_simps split: prod.splits sum.splits option.splits if_splits)

lemma WriteProgram_unlocks:
  assumes "WriteProgram c name source transport (fresh s) = (res, w')"
    and "EvLockObject u m (Inr lk) \<in> set (trace w')"
  shows "unlocks_of u (LockHandle lk) (trace w')
       = (if wp_Success res \<or> list_ex is_failed_write (trace w') then 1 else 2)"
  using assms
  unfolding WriteProgram_def do_defs perform_def fresh_def Let_def
  by (auto simp: unlocks_of_simps locked_events_ok_def
      dest!: WriteProgram_locked_events dest: no_lock_among
      split: prod.splits sum.splits option.splits if_splits)

lemma WriteClass_locked_events:
  assumes "WriteClass_locked c pn ou su src tr lock result w = (res, w')"
    and "\<not> wc_Success result"
  shows "\<exists>new. trace w' = trace w @ new \<and>
           locked_events_ok ou (LockHandle lock) (wc_Success res) new"
  using assms
  unfolding WriteClass_locked_def do_defs perform_def locked_events_ok_def
  by (auto simp: unlocks_of_simps split: prod.splits sum.splits option.splits if_splits)

lemma WriteClass_unlocks:
  assumes "WriteClass c name source transport (fresh s) = (res, w')"
    and "EvLockObject u m (Inr lk) \<in> set (trace w')"
  shows "unlocks_of u (LockHandle lk) (trace w')
       = (if wc_Success res \<or> list_ex is_failed_write (trace w') then 1 else 2)"
  using assms
  unfolding WriteClass_def do_defs perform_def fresh_def Let_def
  by (auto simp: unlocks_of_simps locked_events_ok_def
      dest!: WriteClass_locked_events dest: no_lock_among
      split: prod.splits sum.splits option.splits if_splits)

lemma CreateAndActivateProgram_locked_events:
  assumes "CreateAndActivateProgram_locked c pn ou su src tr lock result w = (res, w')"
    and "\<not> cp_Success result"
  shows "\<exists>new. trace w' = trace w @ new \<and>
           locked_events_ok ou (LockHandle lock) (cp_Success res) new"
  using assms
  unfolding CreateAndActivateProgram_locked_def do_defs perform_def locked_events_ok_def
  by (auto simp: unlocks_of_simps split: prod.splits sum.splits option.splits if_splits)

lemma CreateAndActivateProgram_unlocks:
  assumes "CreateAndActivateProgram c name descr pkg source transport (fresh s) = (res, w')"
    and "EvLockObject u m (Inr lk) \<in> set (trace w')"
  shows "unlocks_of u (LockHandle lk) (trace w')
       = (if cp_Success res \<or> list_ex is_failed_write (trace w') then 1 else 2)"
  using assms
  unfolding CreateAndActivateProgram_def do_defs perform_def fresh_def Let_def
  by (auto simp: unlocks_of_simps locked_events_ok_def
      dest!: CreateAndActivateProgram_locked_events dest: no_lock_among
      split: prod.splits sum.splits option.splits if_splits)

lemma CreateClassWithTests_locked_events:
  assumes "CreateClassWithTests_locked c cn ou su src tsrc tr lock result w = (res, w')"
    and "\<not> ct_Success result"
  shows "\<exists>new. trace w' = trace w @ new \<and>
           locked_events_ok ou (LockHandle lock) (ct_Success res) new"
  using assms
  unfolding CreateClassWithTests_locked_def do_defs perform_def locked_events_ok_def
  by (auto simp: unlocks_of_simps split: prod.splits sum.splits option.splits if_splits)

lemma CreateClassWithTests_unlocks:
  assumes "CreateClassWithTests c name descr pkg source tsource transport (fresh s) = (res, w')"
    and "EvLockObject u m (Inr lk) \<in> set (trace w')"
  shows "unlocks_of u (LockHandle lk) (trace w')
       = (if ct_Success res \<or> list_ex is_failed_write (trace w') then 1 else 2)"
  using assms
  unfolding CreateClassWithTests_def do_defs perform_def fresh_def Let_def
  by (auto simp: unlocks_of_simps locked_events_ok_def
      dest!: CreateClassWithTests_locked_events dest: no_lock_among
      split: prod.splits sum.splits option.splits if_splits)


lemma WriteProgram_syntax_errors:
  assumes "WriteProgram c name source transport (fresh s) = (res, w')"
    and "EvSyntaxCheck u src (Inr errs) \<in> set (trace w')" and "list_ex severe errs"
  shows "trace w' = [EvSyntaxCheck u src (Inr errs)] \<and> \<not> wp_Success res \<and>
         wp_SyntaxErrors res = errs \<and> wp_Message res = ''Source has syntax errors - not saved''"
  using assms
  unfolding WriteProgram_def do_defs perform_def fresh_def Let_def
  by (auto simp: locked_events_ok_def
      dest!: WriteProgram_locked_events dest: no_syntax_check_among
      split: prod.splits sum.splits option.splits if_splits)

lemma WriteClass_syntax_errors:
  assumes "WriteClass c name source transport (fresh s) = (res, w')"
    and "EvSyntaxCheck u src (Inr errs) \<in> set (trace w')" and "list_ex severe errs"
  shows "trace w' = [EvSyntaxCheck u src (Inr errs)] \<and> \<not> wc_Success res \<and>
         wc_SyntaxErrors res = errs \<and> wc_Message res = ''Source has syntax errors - not saved''"
  using assms
  unfolding WriteClass_def do_defs perform_def fresh_def Let_def
  by (auto simp: locked_events_ok_def
      dest!: WriteClass_locked_events dest: no_syntax_check_among
      split: prod.splits sum.splits option.splits if_splits)

text \<open>
  Claim C1, as the code has it.  In a run of WriteProgram, WriteClass,
  CreateAndActivateProgram or CreateClassWithTests that acquires a lock, the unlock requests
  issued for the handle by the time the workflow returns are one or two.  There is exactly
  one when the workflow reports success or when a write under the lock failed, and there are
  two otherwise: the unlock of the workflow's own step and, because the result is not a
  success, the deferred one.
\<close>

theorem workflows_unlock_once_or_twice:
  "(WriteProgram c name source transport (fresh s) = (res1, w1) \<and>
      EvLockObject u1 m1 (Inr lk1) \<in> set (trace w1) \<longrightarrow>
    unlocks_of u1 (LockHandle lk1) (trace w1)
      = (if wp_Success res1 \<or> list_ex is_failed_write (trace w1) then 1 else 2)) \<and>
   (WriteClass c name source transport (fresh s) = (res2, w2) \<and>
      EvLockObject u2 m2 (Inr lk2) \<in> set (trace w2) \<longrightarrow>
    unlocks_of u2 (LockHandle lk2) (trace w2)
      = (if wc_Success res2 \<or> list_ex is_failed_write (trace w2) then 1 else 2)) \<and>
   (CreateAndActivateProgram c name descr pkg source transport (fresh s) = (res3, w3) \<and>
      EvLockObject u3 m3 (Inr lk3) \<in> set (trace w3) \<longrightarrow>
    unlocks_of u3 (LockHandle lk3) (trace w3)
      = (if cp_Success res3 \<or> list_ex is_failed_write (trace w3) then 1 else 2)) \<and>
   (CreateClassWithTests c name descr pkg source testSource transport (fresh s) = (res4, w4) \<and>
      EvLockObject u4 m4 (Inr lk4) \<in> set (trace w4) \<longrightarrow>
    unlocks_of u4 (LockHandle lk4) (trace w4)
      = (if ct_Success res4 \<or> list_ex is_failed_write (trace w4) then 1 else 2))"
proof (intro conjI impI)
  assume "WriteProgram c name source transport (fresh s) = (res1, w1) \<and>
      EvLockObject u1 m1 (Inr lk1) \<in> set (trace w1)"
  then show "unlocks_of u1 (LockHandle lk1) (trace w1)
      = (if wp_Success res1 \<or> list_ex is_failed_write (trace w1) then 1 else 2)"
    by (elim conjE) (rule WriteProgram_unlocks)
next
  assume "WriteClass c name source transport (fresh s) = (res2, w2) \<and>
      EvLockObject u2 m2 (Inr lk2) \<in> set (trace w2)"
  then show "unlocks_of u2 (LockHandle lk2) (trace w2)
      = (if wc_Success res2 \<or> list_ex is_failed_write (trace w2) then 1 else 2)"
    by (elim conjE) (rule WriteClass_unlocks)
next
  assume "CreateAndActivateProgram c name descr pkg source transport (fresh s) = (res3, w3) \<and>
      EvLockObject u3 m3 (Inr lk3) \<in> set (trace w3)"
  then show "unlocks_of u3 (LockHandle lk3) (trace w3)
      = (if cp_Success res3 \<or> list_ex is_failed_write (trace w3) then 1 else 2)"
    by (elim conjE) (rule CreateAndActivateProgram_unlocks)
next
  assume "CreateClassWithTests c name descr pkg source testSource transport (fresh s)
        = (res4, w4) \<and>
      EvLockObject u4 m4 (Inr lk4) \<in> set (trace w4)"
  then show "unlocks_of u4 (LockHandle lk4) (trace w4)
      = (if ct_Success res4 \<or> list_ex is_failed_write (trace w4) then 1 else 2)"
    by (elim conjE) (rule CreateClassWithTests_unlocks)
qed

lemma eq_char_of_iff: "(c = char_of (n::nat)) = (take_bit 8 n = (of_char c :: nat))"
  using char_of_eq_iff [of n c] by auto

lemmas sample_defs = eq_char_of_iff sample_client_def sample_lock_def WriteProgram_def WriteProgram_locked_def
  WriteClass_def WriteClass_locked_def do_defs perform_def fresh_def Let_def ToUpper_def
  upper_byte_def char_of_eq_iff

theorem workflows_unlock_once_or_twice_witness:
  "EvLockObject ''/sap/bc/adt/programs/programs/ZTEST'' ''MODIFY'' (Inr sample_lock)
     \<in> set (trace (snd (WriteProgram (sample_client [] True) ''ztest'' ''REPORT ztest.'' []
          (fresh ())))) \<and>
   unlocks_of ''/sap/bc/adt/programs/programs/ZTEST'' (LockHandle sample_lock)
     (trace (snd (WriteProgram (sample_client [] True) ''ztest'' ''REPORT ztest.'' []
        (fresh ())))) = 1"
proof -
  define r where "r = WriteProgram (sample_client [] True) ''ztest'' ''REPORT ztest.'' []
    (fresh () :: (unit, unit) world)"
  have run: "WriteProgram (sample_client [] True) ''ztest'' ''REPORT ztest.'' [] (fresh ())
      = (fst r, snd r)"
    by (simp add: r_def)
  have success: "wp_Success (fst r)"
    unfolding r_def by (simp add: sample_defs)
  have lock: "EvLockObject ''/sap/bc/adt/programs/programs/ZTEST'' ''MODIFY'' (Inr sample_lock)
      \<in> set (trace (snd r))"
    unfolding r_def by (simp add: sample_defs)
  have "unlocks_of ''/sap/bc/adt/programs/programs/ZTEST'' (LockHandle sample_lock)
      (trace (snd r))
      = (if wp_Success (fst r) \<or> list_ex is_failed_write (trace (snd r)) then 1 else 2)"
    by (rule workflows_unlock_once_or_twice
        [THEN conjunct1, rule_format, OF conjI [OF run lock]])
  with success lock show ?thesis
    unfolding r_def by simp
qed

text \<open>
  Against exactly one unlock: every request succeeds and the activation reports a failure;
  the workflow has unlocked before activating and the deferred function unlocks again.
\<close>

theorem WriteProgram_two_unlocks_counterexample:
  "EvLockObject ''/sap/bc/adt/programs/programs/ZTEST'' ''MODIFY'' (Inr sample_lock)
     \<in> set (trace (snd (WriteProgram (sample_client [] False) ''ztest'' ''REPORT ztest.'' []
          (fresh ())))) \<and>
   unlocks_of ''/sap/bc/adt/programs/programs/ZTEST'' (LockHandle sample_lock)
     (trace (snd (WriteProgram (sample_client [] False) ''ztest'' ''REPORT ztest.'' []
        (fresh ())))) = 2"
  by (simp add: sample_defs unlocks_of_def)

text \<open>
  Claim C4.  When the initial syntax check of WriteProgram or WriteClass returns a diagnostic
  of severity E, A or X, the syntax check is the only request of the run: no lock is
  acquired and no source is uploaded.  The result is not a success, carries the diagnostics
  and says that the source was not saved.
\<close>

theorem write_stops_on_syntax_errors:
  "(WriteProgram c name source transport (fresh s) = (res1, w1) \<and>
      EvSyntaxCheck u1 src1 (Inr errs1) \<in> set (trace w1) \<and> list_ex severe errs1 \<longrightarrow>
    trace w1 = [EvSyntaxCheck u1 src1 (Inr errs1)] \<and>
    \<not> list_ex is_lock (trace w1) \<and> \<not> list_ex is_update (trace w1) \<and>
    \<not> wp_Success res1 \<and> wp_SyntaxErrors res1 = errs1 \<and>
    wp_Message res1 = ''Source has syntax errors - not saved'') \<and>
   (WriteClass c name source transport (fresh s) = (res2, w2) \<and>
      EvSyntaxCheck u2 src2 (Inr errs2) \<in> set (trace w2) \<and> list_ex severe errs2 \<longrightarrow>
    trace w2 = [EvSyntaxCheck u2 src2 (Inr errs2)] \<and>
    \<not> list_ex is_lock (trace w2) \<and> \<not> list_ex is_update (trace w2) \<and>
    \<not> wc_Success res2 \<and> wc_SyntaxErrors res2 = errs2 \<and>
    wc_Message res2 = ''Source has syntax errors - not saved'')"
proof (rule conjI; rule impI; elim conjE)
  assume "WriteProgram c name source transport (fresh s) = (res1, w1)"
    "EvSyntaxCheck u1 src1 (Inr errs1) \<in> set (trace w1)" "list_ex severe errs1"
  from WriteProgram_syntax_errors [OF this]
  show "trace w1 = [EvSyntaxCheck u1 src1 (Inr errs1)] \<and>
    \<not> list_ex is_lock (trace w1) \<and> \<not> list_ex is_update (trace w1) \<and>
    \<not> wp_Success res1 \<and> wp_SyntaxErrors res1 = errs1 \<and>
    wp_Message res1 = ''Source has syntax errors - not saved''"
    by simp
next
  assume "WriteClass c name source transport (fresh s) = (res2, w2)"
    "EvSyntaxCheck u2 src2 (Inr errs2) \<in> set (trace w2)" "list_ex severe errs2"
  from WriteClass_syntax_errors [OF this]
  show "trace w2 = [EvSyntaxCheck u2 src2 (Inr errs2)] \<and>
    \<not> list_ex is_lock (trace w2) \<and> \<not> list_ex is_update (trace w2) \<and>
    \<not> wc_Success res2 \<and> wc_SyntaxErrors res2 = errs2 \<and>
    wc_Message res2 = ''Source has syntax errors - not saved''"
    by simp
qed

theorem write_stops_on_syntax_errors_witness:
  "list_ex severe [sample_error] \<and>
   trace (snd (WriteProgram (sample_client [sample_error] True) ''ztest'' ''REPORT'' []
     (fresh ())))
     = [EvSyntaxCheck ''/sap/bc/adt/programs/programs/ZTEST'' ''REPORT'' (Inr [sample_error])] \<and>
   \<not> wp_Success (fst (WriteProgram (sample_client [sample_error] True) ''ztest'' ''REPORT'' []
     (fresh ())))"
proof -
  define r where "r = WriteProgram (sample_client [sample_error] True) ''ztest'' ''REPORT'' []
    (fresh () :: (unit, unit) world)"
  have run: "WriteProgram (sample_client [sample_error] True) ''ztest'' ''REPORT'' [] (fresh ())
      = (fst r, snd r)"
    by (simp add: r_def)
  have sev: "list_ex severe [sample_error]"
    by (simp add: severe_def sample_error_def)
  have first: "EvSyntaxCheck ''/sap/bc/adt/programs/programs/ZTEST'' ''REPORT''
      (Inr [sample_error]) \<in> set (trace (snd r))"
    unfolding r_def by (simp add: sample_defs sev)
  from write_stops_on_syntax_errors
    [THEN conjunct1, rule_format, OF conjI [OF run conjI [OF first sev]]] sev
  show ?thesis
    unfolding r_def by simp
qed

section \<open>Properties of the deployment handler\<close>











text \<open>
  Claim C6, as the code has it.  A run with \<open>dry_run = true\<close> issues no request: the world
  is returned as it was given.  When the source and the package are given, the archive of
  the source is found and it unzips, the result is not an error and its text ends with
  the plan (the deployable and the skipped objects with their counts) and the dry-run
  notice.  When the source or the package is missing, the archive is not found or it does
  not unzip, the result is an error.
\<close>

theorem dry_run_issues_no_request:
  "boolArgument req ''dry_run'' = Some True \<longrightarrow>
     snd (handleDeployZip_with getZIP zipReader c req w) = w \<and>
     (argString req ''source'' \<noteq> [] \<and> argString req ''package'' \<noteq> [] \<and>
      getZIP (argString req ''source'') = Some zipData \<and>
      UnzipInMemory zipReader zipData = Inr files \<longrightarrow>
        \<not> IsError (fst (handleDeployZip_with getZIP zipReader c req w)) \<and>
        (\<exists>header. res_Content (fst (handleDeployZip_with getZIP zipReader c req w))
           = header
             @ planLines (filter mapped (chosenObjects req files))
                 (filter (\<lambda>obj. \<not> mapped obj) (chosenObjects req files))
             @ [WriteString ''Dry run - no changes made.\<newline>''])) \<and>
     (argString req ''source'' = [] \<or> argString req ''package'' = [] \<or>
      getZIP (argString req ''source'') = None \<or>
      (getZIP (argString req ''source'') = Some zipData \<and>
       UnzipInMemory zipReader zipData = Inl err) \<longrightarrow>
        IsError (fst (handleDeployZip_with getZIP zipReader c req w)))"
  unfolding handleDeployZip_with_def chosenObjects_def
  by (auto simp: Let_def newToolResultError_def NewToolResultText_def
      split: option.splits sum.splits)

lemmas dry_run_sample_defs = dry_run_request_def boolArgument_def stringArgument_def
  argString_def sample_getZIP_def

lemma sample_archive_unzips: "\<exists>files. UnzipInMemory sample_zipReader ''PK'' = Inr files"
  by (auto simp: UnzipInMemory_def sample_zipReader_def isAbapGitFile_def Base_def
      strip_slashes_def HasSuffix_def Let_def split: prod.splits)

theorem dry_run_issues_no_request_witness:
  "boolArgument dry_run_request ''dry_run'' = Some True \<and>
   snd (handleDeployZip_with sample_getZIP sample_zipReader (sample_client [] True)
          dry_run_request (fresh ())) = fresh () \<and>
   \<not> IsError (fst (handleDeployZip_with sample_getZIP sample_zipReader (sample_client [] True)
          dry_run_request (fresh ())))"
proof -
  have d: "boolArgument dry_run_request ''dry_run'' = Some True"
    by (simp add: dry_run_sample_defs)
  have s: "argString dry_run_request ''source'' \<noteq> []"
    "argString dry_run_request ''package'' \<noteq> []"
    "sample_getZIP (argString dry_run_request ''source'') = Some ''PK''"
    by (simp_all add: dry_run_sample_defs)
  obtain files where u: "UnzipInMemory sample_zipReader ''PK'' = Inr files"
    using sample_archive_unzips by blast
  from dry_run_issues_no_request
    [of dry_run_request sample_getZIP sample_zipReader "sample_client [] True" "fresh ()"
      "''PK''" files, THEN mp, OF d]
  have "snd (handleDeployZip_with sample_getZIP sample_zipReader (sample_client [] True)
          dry_run_request (fresh ())) = fresh ()"
    and "\<not> IsError (fst (handleDeployZip_with sample_getZIP sample_zipReader
          (sample_client [] True) dry_run_request (fresh ())))"
    using s u by blast+
  with d show ?thesis by blast
qed

text \<open>
  Against the plan for every dry run: in this source tree no archive is embedded, and the
  dry run of the deployment of \<open>abapgit-standalone\<close> returns an error, not a plan.
\<close>

theorem dry_run_without_archive_counterexample:
  "boolArgument dry_run_request ''dry_run'' = Some True \<and>
   fst (handleDeployZip sample_zipReader (sample_client [] True) dry_run_request (fresh ()))
     = \<lparr>res_Content = [Printf ''Source '%s' not found. Available: %s''
                   [S ''abapgit-standalone'', S []]],
        IsError = True\<rparr>"
  by (simp add: dry_run_sample_defs handleDeployZip_def handleDeployZip_with_def
      GetDependencyZIP_def GetAvailableDependencies_def newToolResultError_def
      NewToolResultText_def Let_def)

end
